theory Spec2Isabelle
  imports Complex_Main "HOL-Library.AList"
begin

section \<open>Errors and the state-and-exception discipline\<close>

text \<open>
  The editor core is JavaScript: every method mutates the map in place and may throw.
  A method is modelled as a function from the state to a result and the new state.  The
  result is \<open>Inl e\<close> when the method throws \<open>e\<close>; the state returned with it is the
  state at the moment of the throw, since JavaScript does not roll anything back.

  \<open>TypeError\<close> is the error the runtime itself raises (reading a property of
  \<open>undefined\<close>, reading a private field of an object of another class);
  \<open>Error msg\<close> is \<open>throw new Error(msg)\<close> of the source, with the fixed part of
  its message; \<open>Diverges\<close> marks a loop of the source that does not end.
\<close>

datatype error = TypeError | Error string | Diverges

type_synonym ('s, 'a) prog = "'s \<Rightarrow> (error + 'a) \<times> 's"

definition ret :: "'a \<Rightarrow> ('s, 'a) prog" where
  "ret a s = (Inr a, s)"

definition throw :: "error \<Rightarrow> ('s, 'a) prog" where
  "throw e s = (Inl e, s)"

text \<open>
  What follows a step: an error ends the run with the state of the throw, a value is handed
  to the rest of the program together with the state.
\<close>

fun continueWith :: "(error + 'a) \<times> 's \<Rightarrow> ('a \<Rightarrow> ('s, 'b) prog) \<Rightarrow> (error + 'b) \<times> 's" where
  "continueWith (Inl e, s) f = (Inl e, s)"
| "continueWith (Inr a, s) f = f a s"

definition bind :: "('s, 'a) prog \<Rightarrow> ('a \<Rightarrow> ('s, 'b) prog) \<Rightarrow> ('s, 'b) prog" where
  "bind m f s = continueWith (m s) f"

definition modify :: "('s \<Rightarrow> 's) \<Rightarrow> ('s, unit) prog" where
  "modify f s = (Inr (), f s)"

text \<open>The state a call leaves behind, and what the call returns or throws.\<close>

definition exec :: "('s, 'a) prog \<Rightarrow> 's \<Rightarrow> 's" where
  "exec p s = snd (p s)"

definition outcome :: "('s, 'a) prog \<Rightarrow> 's \<Rightarrow> error + 'a" where
  "outcome p s = fst (p s)"

text \<open>\<open>xs.forEach(f)\<close>, the callback's return value ignored; a throw ends the loop.\<close>

primrec forEach :: "'a list \<Rightarrow> ('a \<Rightarrow> ('s, unit) prog) \<Rightarrow> ('s, unit) prog" where
  "forEach [] f = ret ()"
| "forEach (x # xs) f = bind (f x) (\<lambda>u. forEach xs f)"

text \<open>
  A loop whose callback only writes local variables: it runs on the local variables alone
  and hands their final values on; the state \<open>'s\<close> is not touched.
\<close>

definition runLocal :: "('l, unit) prog \<Rightarrow> 'l \<Rightarrow> ('s, 'l) prog" where
  "runLocal p locals s =
     (case p locals of (Inl e, l') \<Rightarrow> (Inl e, s) | (Inr u, l') \<Rightarrow> (Inr l', s))"

section \<open>History (history.class.js)\<close>

text \<open>
  An action holds its two thunks, the target, the parameter name and the coalescing flag.
  The thunks close over the map; here they are functions on the state \<open>'w\<close> they mutate.
  \<open>target\<close> and \<open>parameter\<close> are \<open>null\<close> (\<open>None\<close>) by default and are compared
  with \<open>===\<close>.
\<close>

record ('t, 'w) Action =
  doFunc :: "('w, unit) prog"
  undoFunc :: "('w, unit) prog"
  target :: "'t option"
  parameter :: "string option"
  coalescing :: bool

text \<open>Both stacks are arrays used with \<open>push\<close> and \<open>pop\<close>: the top is the last element.\<close>

record ('t, 'w) History =
  stack :: "('t, 'w) Action list"
  redoStack :: "('t, 'w) Action list"

definition History_new :: "('t, 'w) History" where
  "History_new = \<lparr>stack = [], redoStack = []\<rparr>"

definition undoCount :: "('t, 'w) History \<Rightarrow> nat" where
  "undoCount h = length (stack h)"

definition redoCount :: "('t, 'w) History \<Rightarrow> nat" where
  "redoCount h = length (redoStack h)"

text \<open>
  \<open>const last = this.stack[this.stack.length - 1]\<close> is \<open>undefined\<close> on an empty stack,
  which makes \<open>replace\<close> falsy.
\<close>

definition History_replace :: "('t, 'w) History \<Rightarrow> 't option \<Rightarrow> string option \<Rightarrow> bool" where
  "History_replace h tgt par =
     (stack h \<noteq> [] \<and> coalescing (last (stack h)) \<and> target (last (stack h)) = tgt
      \<and> parameter (last (stack h)) = par)"

text \<open>
  \<open>do(doFunc, undoFunc, target, parameter, coalescing)\<close>.  The state is the history
  together with the state the thunks act on.
\<close>

definition History_do ::
  "('w, unit) prog \<Rightarrow> ('w, unit) prog \<Rightarrow> 't option \<Rightarrow> string option \<Rightarrow> bool
     \<Rightarrow> (('t, 'w) History \<times> 'w, unit) prog" where
  "History_do doF undoF tgt par coal = (\<lambda>(h, w).
     (let action = \<lparr>doFunc = doF, undoFunc = undoF, target = tgt, parameter = par,
                     coalescing = coal\<rparr>;
          h' = (if History_replace h tgt par
                then h\<lparr>stack := butlast (stack h) @ [action]\<rparr>
                else h\<lparr>stack := stack h @ [action], redoStack := []\<rparr>)
      in case doFunc action w of (r, w') \<Rightarrow> (r, (h', w'))))"

text \<open>\<open>undo()\<close>: a thunk that throws leaves the action popped and not pushed on the redo stack.\<close>

definition History_undo :: "(('t, 'w) History \<times> 'w, unit) prog" where
  "History_undo = (\<lambda>(h, w).
     (if stack h = [] then (Inr (), (h, w))
      else
        (let action = last (stack h); h1 = h\<lparr>stack := butlast (stack h)\<rparr>
         in case undoFunc action w of
              (Inl e, w') \<Rightarrow> (Inl e, (h1, w'))
            | (Inr u, w') \<Rightarrow> (Inr (), (h1\<lparr>redoStack := redoStack h1 @ [action]\<rparr>, w')))))"

definition History_redo :: "(('t, 'w) History \<times> 'w, unit) prog" where
  "History_redo = (\<lambda>(h, w).
     (if redoStack h = [] then (Inr (), (h, w))
      else
        (let action = last (redoStack h); h1 = h\<lparr>redoStack := butlast (redoStack h)\<rparr>
         in case doFunc action w of
              (Inl e, w') \<Rightarrow> (Inl e, (h1, w'))
            | (Inr u, w') \<Rightarrow> (Inr (), (h1\<lparr>stack := stack h1 @ [action]\<rparr>, w')))))"

definition History_clear :: "('t, 'w) History \<Rightarrow> ('t, 'w) History" where
  "History_clear h = h\<lparr>stack := [], redoStack := []\<rparr>"

section \<open>The data model\<close>

text \<open>
  JavaScript numbers are modelled as real numbers: finite, without \<open>NaN\<close>, signed
  zero or rounding.  Objects have identity and mutable fields, and one object is reached
  from several places (the arrays of the map, its key maps, the spatial grid, the incidence
  list of a vertex, the boundary of a sector, the closures on the undo stack).  An object
  reference is therefore a number, and the map state holds one store per class that gives
  the current fields of every object.  A JavaScript \<open>Map\<close> is an association list
  (\<open>get\<close> is \<open>map_of\<close>, \<open>set\<close> is \<open>AList.update\<close>, \<open>delete\<close> is
  \<open>AList.delete\<close>), a \<open>Set\<close> is a list without duplicates in insertion order.

  The events sent by \<open>#emitChange\<close> go to outside observers and change no state of the
  map; they are left out.
\<close>

type_synonym ref = nat

text \<open>The \<open>bounds\<close> field of the base class Geometry.\<close>

record Bounds =
  min_x :: real
  min_y :: real
  max_x :: real
  max_y :: real

record Vertex =
  v_bounds :: Bounds
  v_lines :: "ref list"
  v_x :: real
  v_y :: real

record Side =
  sector :: "ref option"
  sectorOld :: "ref option"
  sectorOverride :: "ref option"
  textureUpper :: string
  textureMiddle :: string
  textureLower :: string
  xOffset :: real
  yOffset :: real

record Flags =
  impassable :: bool
  twoSided :: bool
  upperUnpegged :: bool
  lowerUnpegged :: bool
  secret :: bool
  blockSound :: bool
  dontDraw :: bool

record Line =
  l_bounds :: Bounds
  l_v0 :: ref
  l_v1 :: ref
  l_front :: Side
  l_back :: Side
  l_flags :: Flags

record Properties =
  floorHeight :: real
  ceilingHeight :: real
  floorTexture :: string
  ceilingTexture :: string
  lightLevel :: real
  tag :: real
  special :: real

text \<open>
  The bounds of a sector are the minimum and maximum over its line descriptors, starting
  from \<open>Infinity\<close> and \<open>-Infinity\<close>: \<open>None\<close> stands for the bounds of a sector built
  from no line, which keep these infinite values.  \<open>s_map\<close> tells whether the private
  field \<open>#map\<close> is set.
\<close>

record Sector =
  s_bounds :: "Bounds option"
  s_lines :: "ref list"
  flatXY :: "real list"
  s_map :: bool
  parent :: "ref option"
  children :: "ref list"
  properties :: Properties

record Thing =
  t_bounds :: Bounds
  t_x :: real
  t_y :: real
  z :: real
  typeId :: real
  angle :: real

text \<open>What a grid cell or the selection holds: an object of one of the four classes.\<close>

datatype geometry = GVertex ref | GLine ref | GSector ref | GThing ref

text \<open>
  The key strings \<open>`${x},${y}`\<close> and \<open>`${x0},${y0}:${x1},${y1}`\<close>.  Printing is
  one-to-one on the numbers modelled here and a vertex key never equals a line key, so a
  key is represented by the numbers it is printed from.
\<close>

datatype key = VertexKey real real | LineKey real real real real

text \<open>
  What the map passes as \<open>target\<close> to the history: a key string, a line, a sector, or
  the map itself.
\<close>

datatype target = TKey key | TLine ref | TSector ref | TMap

record MetaFlags =
  monstersEnabled :: bool
  deathmatch :: bool
  allowJump :: bool
  allowFreelook :: bool
  doom2Format :: bool

record Metadata =
  name :: string
  title :: string
  author :: string
  music :: string
  skyTexture :: string
  ambientLight :: real
  m_flags :: MetaFlags

text \<open>The private fields of DoomMap other than the history, and the object stores.\<close>

record World =
  metadata :: Metadata
  vertices :: "ref list"
  vertexMap :: "(key \<times> ref) list"
  lines :: "ref list"
  lineMap :: "(key \<times> ref) list"
  modifiedLines :: "ref list"
  sectors :: "ref list"
  things :: "ref list"
  selection :: "geometry list"
  spatialGrid :: "(int \<times> (int \<times> geometry list) list) list"
  vertexObj :: "ref \<Rightarrow> Vertex"
  lineObj :: "ref \<Rightarrow> Line"
  sectorObj :: "ref \<Rightarrow> Sector"
  thingObj :: "ref \<Rightarrow> Thing"
  nextRef :: ref

record DoomMap =
  history :: "(target, World) History"
  world :: World

section \<open>Arrays, sets and numbers\<close>

text \<open>\<open>xs.indexOf(x)\<close>, with \<open>None\<close> for \<open>-1\<close>.\<close>

fun indexOf :: "'a \<Rightarrow> 'a list \<Rightarrow> nat option" where
  "indexOf x [] = None"
| "indexOf x (y # ys) = (if x = y then Some 0 else map_option Suc (indexOf x ys))"

text \<open>
  \<open>xs.splice(i, 1)\<close>: an index past the end removes nothing, and the index \<open>-1\<close>
  removes the last element.
\<close>

definition splice1 :: "nat option \<Rightarrow> 'a list \<Rightarrow> 'a list" where
  "splice1 i xs = (case i of None \<Rightarrow> butlast xs | Some n \<Rightarrow> take n xs @ drop (Suc n) xs)"

definition set_add :: "'a \<Rightarrow> 'a list \<Rightarrow> 'a list" where
  "set_add x xs = (if x \<in> set xs then xs else xs @ [x])"

definition set_delete :: "'a \<Rightarrow> 'a list \<Rightarrow> 'a list" where
  "set_delete x xs = removeAll x xs"

definition Math_round :: "real \<Rightarrow> real" where
  "Math_round x = of_int \<lfloor>x + 1 / 2\<rfloor>"

definition Math_floor :: "real \<Rightarrow> int" where
  "Math_floor x = \<lfloor>x\<rfloor>"

section \<open>String keys\<close>

definition createVertexKey :: "real \<Rightarrow> real \<Rightarrow> key" where
  "createVertexKey x y = VertexKey x y"

definition createLineKey :: "real \<Rightarrow> real \<Rightarrow> real \<Rightarrow> real \<Rightarrow> key" where
  "createLineKey x0 y0 x1 y1 =
     (if x0 < x1 \<or> (x0 = x1 \<and> y0 \<le> y1) then LineKey x0 y0 x1 y1 else LineKey x1 y1 x0 y0)"

section \<open>Spatial grid\<close>

definition SPATIAL_GRID_CELL_SIZE :: real where
  "SPATIAL_GRID_CELL_SIZE = 128"

definition boundsOf :: "World \<Rightarrow> geometry \<Rightarrow> Bounds option" where
  "boundsOf w g =
     (case g of
        GVertex r \<Rightarrow> Some (v_bounds (vertexObj w r))
      | GLine r \<Rightarrow> Some (l_bounds (lineObj w r))
      | GSector r \<Rightarrow> s_bounds (sectorObj w r)
      | GThing r \<Rightarrow> Some (t_bounds (thingObj w r)))"

text \<open>The cell indices \<open>Math.floor(lo / 128), ..., Math.floor(hi / 128)\<close> of a loop.\<close>

definition cellRange :: "real \<Rightarrow> real \<Rightarrow> int list" where
  "cellRange lo hi =
     [Math_floor (lo / SPATIAL_GRID_CELL_SIZE) .. Math_floor (hi / SPATIAL_GRID_CELL_SIZE)]"

fun addToColumn :: "geometry \<Rightarrow> int list \<Rightarrow> (int \<times> geometry list) list
    \<Rightarrow> (int \<times> geometry list) list" where
  "addToColumn g [] column = column"
| "addToColumn g (y # ys) column =
     (let cell = (case map_of column y of None \<Rightarrow> [] | Some c \<Rightarrow> c)
      in addToColumn g ys (AList.update y (set_add g cell) column))"

fun addToGrid :: "geometry \<Rightarrow> int list \<Rightarrow> int list
    \<Rightarrow> (int \<times> (int \<times> geometry list) list) list
    \<Rightarrow> (int \<times> (int \<times> geometry list) list) list" where
  "addToGrid g [] ys grid = grid"
| "addToGrid g (x # xs) ys grid =
     (let column = (case map_of grid x of None \<Rightarrow> [] | Some c \<Rightarrow> c)
      in addToGrid g xs ys (AList.update x (addToColumn g ys column) grid))"

text \<open>
  \<open>#addToSpatialGrid(geometry)\<close>.  With the infinite bounds of a sector without lines
  both loops run from \<open>Infinity\<close> to \<open>-Infinity\<close>, that is not at all.
\<close>

definition addToSpatialGrid :: "geometry \<Rightarrow> World \<Rightarrow> World" where
  "addToSpatialGrid g w =
     (case boundsOf w g of
        None \<Rightarrow> w
      | Some b \<Rightarrow>
          w\<lparr>spatialGrid := addToGrid g (cellRange (min_x b) (max_x b))
                              (cellRange (min_y b) (max_y b)) (spatialGrid w)\<rparr>)"

fun removeFromColumn :: "geometry \<Rightarrow> int list \<Rightarrow> (int \<times> geometry list) list
    \<Rightarrow> (int \<times> geometry list) list" where
  "removeFromColumn g [] column = column"
| "removeFromColumn g (y # ys) column =
     (case map_of column y of
        None \<Rightarrow> removeFromColumn g ys column
      | Some cell \<Rightarrow>
          (let cell' = set_delete g cell
           in removeFromColumn g ys
                (if cell' = [] then AList.delete y column else AList.update y cell' column)))"

fun removeFromGrid :: "geometry \<Rightarrow> int list \<Rightarrow> int list
    \<Rightarrow> (int \<times> (int \<times> geometry list) list) list
    \<Rightarrow> (int \<times> (int \<times> geometry list) list) list" where
  "removeFromGrid g [] ys grid = grid"
| "removeFromGrid g (x # xs) ys grid =
     (case map_of grid x of
        None \<Rightarrow> removeFromGrid g xs ys grid
      | Some column \<Rightarrow>
          (let column' = removeFromColumn g ys column
           in removeFromGrid g xs ys
                (if column' = [] then AList.delete x grid else AList.update x column' grid)))"

definition removeFromSpatialGrid :: "geometry \<Rightarrow> World \<Rightarrow> World" where
  "removeFromSpatialGrid g w =
     (case boundsOf w g of
        None \<Rightarrow> w
      | Some b \<Rightarrow>
          w\<lparr>spatialGrid := removeFromGrid g (cellRange (min_x b) (max_x b))
                              (cellRange (min_y b) (max_y b)) (spatialGrid w)\<rparr>)"

text \<open>
  The content of the cell \<open>(cx, cy)\<close> as \<open>#iterateGeometry\<close> reads it: nothing when
  the column or the cell is missing.
\<close>

definition cellAt :: "World \<Rightarrow> int \<Rightarrow> int \<Rightarrow> geometry list" where
  "cellAt w cx cy =
     (case map_of (spatialGrid w) cx of
        None \<Rightarrow> []
      | Some column \<Rightarrow> (case map_of column cy of None \<Rightarrow> [] | Some cell \<Rightarrow> cell))"

section \<open>Geometry utilities (utility.class.js)\<close>

definition EPSILON :: real where
  "EPSILON = 1 / 10 ^ 12"

definition orientation :: "real \<Rightarrow> real \<Rightarrow> real \<Rightarrow> real \<Rightarrow> real \<Rightarrow> real \<Rightarrow> int" where
  "orientation px py qx qy rx ry =
     (let cross = (qx - px) * (ry - py) - (qy - py) * (rx - px)
      in if \<bar>cross\<bar> < EPSILON then 0 else if cross > 0 then 1 else - 1)"

definition onSegment :: "real \<Rightarrow> real \<Rightarrow> real \<Rightarrow> real \<Rightarrow> real \<Rightarrow> real \<Rightarrow> bool" where
  "onSegment px py qx qy rx ry =
     (min px rx - EPSILON \<le> qx \<and> qx \<le> max px rx + EPSILON \<and>
      min py ry - EPSILON \<le> qy \<and> qy \<le> max py ry + EPSILON)"

definition segmentsProperlyIntersect ::
  "real \<Rightarrow> real \<Rightarrow> real \<Rightarrow> real \<Rightarrow> real \<Rightarrow> real \<Rightarrow> real \<Rightarrow> real \<Rightarrow> bool" where
  "segmentsProperlyIntersect ax ay bx by' cx cy dx dy =
     (let o1 = orientation ax ay bx by' cx cy;
          o2 = orientation ax ay bx by' dx dy;
          o3 = orientation cx cy dx dy ax ay;
          o4 = orientation cx cy dx dy bx by'
      in o1 * o2 < 0 \<and> o3 * o4 < 0)"

definition collinearOverlapMoreThanEndpoint ::
  "real \<Rightarrow> real \<Rightarrow> real \<Rightarrow> real \<Rightarrow> real \<Rightarrow> real \<Rightarrow> real \<Rightarrow> real \<Rightarrow> bool" where
  "collinearOverlapMoreThanEndpoint ax ay bx by' cx cy dx dy =
     (let o1 = orientation ax ay bx by' cx cy;
          o2 = orientation ax ay bx by' dx dy
      in if o1 \<noteq> 0 \<or> o2 \<noteq> 0 then False
         else
           (let useX = (\<bar>ax - bx\<bar> \<ge> \<bar>ay - by'\<bar>);
                a0 = (if useX then ax else ay);
                a1 = (if useX then bx else by');
                c0 = (if useX then cx else cy);
                c1 = (if useX then dx else dy);
                s1 = (if a0 \<le> a1 then a0 else a1);
                e1 = (if a0 \<le> a1 then a1 else a0);
                s2 = (if c0 \<le> c1 then c0 else c1);
                e2 = (if c0 \<le> c1 then c1 else c0);
                left = max s1 s2;
                right = min e1 e2;
                overlapLength = right - left
            in overlapLength > EPSILON))"

text \<open>
  \<open>Math.atan2(y, x)\<close> as the angle in \<open>(-\<pi>, \<pi>]\<close> of the point \<open>(x, y)\<close>, and
  zero at the origin.
\<close>

definition Math_atan2 :: "real \<Rightarrow> real \<Rightarrow> real" where
  "Math_atan2 y x =
     (if x > 0 then arctan (y / x)
      else if x < 0 then (if y \<ge> 0 then arctan (y / x) + pi else arctan (y / x) - pi)
      else if y > 0 then pi / 2
      else if y < 0 then - (pi / 2)
      else 0)"

definition angleTo :: "real \<Rightarrow> real \<Rightarrow> real \<Rightarrow> real \<Rightarrow> real" where
  "angleTo ax ay bx by' = Math_atan2 (by' - ay) (bx - ax)"

text \<open>The remainder \<open>a % b\<close> of JavaScript: the quotient is truncated towards zero.\<close>

definition js_rem :: "real \<Rightarrow> real \<Rightarrow> real" where
  "js_rem a b =
     a - b * of_int (if a / b \<ge> 0 then \<lfloor>a / b\<rfloor> else \<lceil>a / b\<rceil>)"

definition angleToCcw :: "real \<Rightarrow> real \<Rightarrow> real" where
  "angleToCcw a b = (let tau = pi * 2 in js_rem (js_rem (b - a) tau + tau) tau)"

text \<open>
  Element \<open>k\<close> of a flat coordinate array.  The core only builds arrays of even length,
  on which the loops below never read past the end.
\<close>

definition elemAt :: "real list \<Rightarrow> nat \<Rightarrow> real" where
  "elemAt xs k = (if k < length xs then xs ! k else 0)"

text \<open>The even indices \<open>0, 2, ...\<close> below \<open>n\<close>: the values of \<open>i\<close> in \<open>for (i = 0; i < n; i += 2)\<close>.\<close>

definition evens :: "nat \<Rightarrow> nat list" where
  "evens n = map (\<lambda>k. 2 * k) [0 ..< (n + 1) div 2]"

definition signedArea2d :: "real list \<Rightarrow> real" where
  "signedArea2d flat =
     (let n = length flat
      in if n < 3 * 2 then 0
         else 0.5 * foldl (\<lambda>sum i.
                       (let j = (i + 2) mod n
                        in sum + (elemAt flat i * elemAt flat (j + 1) - elemAt flat (i + 1) * elemAt flat j)))
                     0 (evens n))"

definition polygonContainsPoint :: "real list \<Rightarrow> real \<Rightarrow> real \<Rightarrow> bool" where
  "polygonContainsPoint flat px py =
     (if length flat < 6 then False
      else foldl (\<lambda>inside i.
             (let n = length flat; j = (i + 2) mod n;
                  xi = elemAt flat i; yi = elemAt flat (i + 1);
                  xj = elemAt flat j; yj = elemAt flat (j + 1);
                  intersects = ((yi > py) \<noteq> (yj > py) \<and>
                                px < (xj - xi) * (py - yi) / (yj - yi) + xi)
              in if intersects then \<not> inside else inside))
           False (evens (length flat)))"

definition polygonContainsAllVertices :: "real list \<Rightarrow> real list \<Rightarrow> bool" where
  "polygonContainsAllVertices inner outer =
     (if length inner < 2 \<or> length outer < 6 then False
      else list_all (\<lambda>i. polygonContainsPoint outer (elemAt inner i) (elemAt inner (i + 1)))
             (evens (length inner)))"

section \<open>Vertex, Thing and Line\<close>

definition pointBounds :: "real \<Rightarrow> real \<Rightarrow> Bounds" where
  "pointBounds x y = \<lparr>min_x = x, min_y = y, max_x = x, max_y = y\<rparr>"

text \<open>\<open>new Vertex(x, y)\<close>: a fresh object.\<close>

definition Vertex_new :: "real \<Rightarrow> real \<Rightarrow> (World, ref) prog" where
  "Vertex_new x y w =
     (let r = nextRef w
      in (Inr r, w\<lparr>vertexObj := (vertexObj w)
                       (r := \<lparr>v_bounds = pointBounds x y, v_lines = [], v_x = x, v_y = y\<rparr>),
                    nextRef := Suc r\<rparr>))"

definition Thing_new :: "real \<Rightarrow> real \<Rightarrow> real \<Rightarrow> real \<Rightarrow> real \<Rightarrow> (World, ref) prog" where
  "Thing_new x y z0 ty an w =
     (let r = nextRef w
      in (Inr r, w\<lparr>thingObj := (thingObj w)
                       (r := \<lparr>t_bounds = pointBounds x y, t_x = x, t_y = y, z = z0,
                              typeId = ty, angle = an\<rparr>),
                    nextRef := Suc r\<rparr>))"

definition Thing_clone :: "ref \<Rightarrow> real \<Rightarrow> real \<Rightarrow> (World, ref) prog" where
  "Thing_clone this x y w =
     Thing_new x y (z (thingObj w this)) (typeId (thingObj w this)) (angle (thingObj w this)) w"

definition Side_new :: Side where
  "Side_new = \<lparr>sector = None, sectorOld = None, sectorOverride = None, textureUpper = [],
               textureMiddle = [], textureLower = [], xOffset = 0, yOffset = 0\<rparr>"

definition Side_copy :: "Side \<Rightarrow> Side \<Rightarrow> Side" where
  "Side_copy this side =
     this\<lparr>textureUpper := textureUpper side, textureMiddle := textureMiddle side,
          textureLower := textureLower side, xOffset := xOffset side,
          yOffset := yOffset side\<rparr>"

definition Flags_new :: Flags where
  "Flags_new = \<lparr>impassable = False, twoSided = False, upperUnpegged = False,
                lowerUnpegged = False, secret = False, blockSound = False,
                dontDraw = False\<rparr>"

definition Flags_copy :: "Flags \<Rightarrow> Flags \<Rightarrow> Flags" where
  "Flags_copy this fl =
     this\<lparr>impassable := impassable fl, twoSided := twoSided fl,
          upperUnpegged := upperUnpegged fl, lowerUnpegged := lowerUnpegged fl,
          secret := secret fl, blockSound := blockSound fl, dontDraw := dontDraw fl\<rparr>"

definition Vertex_addLine :: "ref \<Rightarrow> ref \<Rightarrow> World \<Rightarrow> World" where
  "Vertex_addLine this line w =
     w\<lparr>vertexObj := (vertexObj w)
          (this := (vertexObj w this)\<lparr>v_lines := v_lines (vertexObj w this) @ [line]\<rparr>)\<rparr>"

text \<open>
  \<open>new Line(v0, v1)\<close>: the bounds come from the two vertices, and the line pushes itself
  on the incidence list of \<open>v0\<close> and then of \<open>v1\<close>.
\<close>

definition Line_new :: "ref \<Rightarrow> ref \<Rightarrow> (World, ref) prog" where
  "Line_new v0 v1 w =
     (let r = nextRef w; a = vertexObj w v0; b = vertexObj w v1;
          obj = \<lparr>l_bounds = \<lparr>min_x = min (v_x a) (v_x b), min_y = min (v_y a) (v_y b),
                              max_x = max (v_x a) (v_x b), max_y = max (v_y a) (v_y b)\<rparr>,
                 l_v0 = v0, l_v1 = v1, l_front = Side_new, l_back = Side_new,
                 l_flags = Flags_new\<rparr>;
          w1 = w\<lparr>lineObj := (lineObj w)(r := obj), nextRef := Suc r\<rparr>
      in (Inr r, Vertex_addLine v1 r (Vertex_addLine v0 r w1)))"

text \<open>
  \<open>clone(vertexMap, v0 = null, v1 = null)\<close>: the end points are looked up by key in the
  given vertex map; the copy takes the textures, offsets and flags, not the sector
  references.
\<close>

definition copyStyle :: "ref \<Rightarrow> ref \<Rightarrow> World \<Rightarrow> World" where
  "copyStyle line this w =
     w\<lparr>lineObj := (lineObj w)
          (line := (lineObj w line)
             \<lparr>l_front := Side_copy (l_front (lineObj w line)) (l_front (lineObj w this)),
              l_back := Side_copy (l_back (lineObj w line)) (l_back (lineObj w this)),
              l_flags := Flags_copy (l_flags (lineObj w line)) (l_flags (lineObj w this))\<rparr>)\<rparr>"

definition Line_clone :: "ref \<Rightarrow> (key \<times> ref) list \<Rightarrow> ref option \<Rightarrow> ref option
    \<Rightarrow> (World, ref) prog" where
  "Line_clone this vmap v0 v1 w =
     (let a = vertexObj w (case v0 of None \<Rightarrow> l_v0 (lineObj w this) | Some v \<Rightarrow> v);
          b = vertexObj w (case v1 of None \<Rightarrow> l_v1 (lineObj w this) | Some v \<Rightarrow> v)
      in case map_of vmap (createVertexKey (v_x a) (v_y a)) of
           None \<Rightarrow> (Inl (Error ''Missing vertex''), w)
         | Some v0' \<Rightarrow>
             (case map_of vmap (createVertexKey (v_x b) (v_y b)) of
                None \<Rightarrow> (Inl (Error ''Missing vertex''), w)
              | Some v1' \<Rightarrow>
                  bind (Line_new v0' v1')
                    (\<lambda>line. bind (modify (copyStyle line this)) (\<lambda>u. ret line)) w))"

text \<open>
  \<open>clearVertices()\<close>: both indices are taken before either list is spliced.
\<close>

definition Line_clearVertices :: "ref \<Rightarrow> (World, unit) prog" where
  "Line_clearVertices this w =
     (let v0 = l_v0 (lineObj w this); v1 = l_v1 (lineObj w this);
          i0 = indexOf this (v_lines (vertexObj w v0));
          i1 = indexOf this (v_lines (vertexObj w v1))
      in if i0 = None \<or> i1 = None then (Inl (Error ''Line missing from vertices''), w)
         else
           (let w1 = w\<lparr>vertexObj := (vertexObj w)
                       (v0 := (vertexObj w v0)
                          \<lparr>v_lines := splice1 i0 (v_lines (vertexObj w v0))\<rparr>)\<rparr>;
                w2 = w1\<lparr>vertexObj := (vertexObj w1)
                       (v1 := (vertexObj w1 v1)
                          \<lparr>v_lines := splice1 i1 (v_lines (vertexObj w1 v1))\<rparr>)\<rparr>
            in (Inr (), w2)))"

section \<open>The map and its history\<close>

definition Metadata_new :: Metadata where
  "Metadata_new =
     \<lparr>name = ''MAP01'', title = ''Untitled Map'', author = [], music = [],
      skyTexture = ''SKY1'', ambientLight = 0,
      m_flags = \<lparr>monstersEnabled = True, deathmatch = True, allowJump = False,
                  allowFreelook = True, doom2Format = False\<rparr>\<rparr>"

text \<open>
  The stores are total: a reference that no constructor has returned yet reads as a default
  object.  No definition below reads a reference it has not been given.
\<close>

definition World_new :: World where
  "World_new =
     \<lparr>metadata = Metadata_new, vertices = [], vertexMap = [], lines = [], lineMap = [],
      modifiedLines = [], sectors = [], things = [], selection = [], spatialGrid = [],
      vertexObj = (\<lambda>r. \<lparr>v_bounds = pointBounds 0 0, v_lines = [], v_x = 0, v_y = 0\<rparr>),
      lineObj = (\<lambda>r. \<lparr>l_bounds = pointBounds 0 0, l_v0 = 0, l_v1 = 0, l_front = Side_new,
                        l_back = Side_new, l_flags = Flags_new\<rparr>),
      sectorObj = (\<lambda>r. \<lparr>s_bounds = None, s_lines = [], flatXY = [], s_map = False,
                          parent = None, children = [],
                          properties = \<lparr>floorHeight = 0, ceilingHeight = 128,
                                         floorTexture = ''FLAT1'',
                                         ceilingTexture = ''CEIL1'', lightLevel = 160,
                                         tag = 0, special = 0\<rparr>\<rparr>),
      thingObj = (\<lambda>r. \<lparr>t_bounds = pointBounds 0 0, t_x = 0, t_y = 0, z = 0, typeId = 1,
                         angle = 0\<rparr>),
      nextRef = 0\<rparr>"

definition DoomMap_new :: DoomMap where
  "DoomMap_new = \<lparr>history = History_new, world = World_new\<rparr>"

text \<open>A step on the private fields alone, and the three entry points of the history.\<close>

definition liftW :: "(World, 'a) prog \<Rightarrow> (DoomMap, 'a) prog" where
  "liftW p m = (case p (world m) of (r, w') \<Rightarrow> (r, m\<lparr>world := w'\<rparr>))"

definition history_do :: "(World, unit) prog \<Rightarrow> (World, unit) prog \<Rightarrow> target option
    \<Rightarrow> string option \<Rightarrow> bool \<Rightarrow> (DoomMap, unit) prog" where
  "history_do doF undoF tgt par coal m =
     (case History_do doF undoF tgt par coal (history m, world m) of
        (r, (h', w')) \<Rightarrow> (r, \<lparr>history = h', world = w'\<rparr>))"

definition history_undo :: "(DoomMap, unit) prog" where
  "history_undo m =
     (case History_undo (history m, world m) of
        (r, (h', w')) \<Rightarrow> (r, \<lparr>history = h', world = w'\<rparr>))"

definition history_redo :: "(DoomMap, unit) prog" where
  "history_redo m =
     (case History_redo (history m, world m) of
        (r, (h', w')) \<Rightarrow> (r, \<lparr>history = h', world = w'\<rparr>))"

section \<open>Registration helpers\<close>

text \<open>
  Each private helper hands two closures to the history.  The closures are the
  \<open>_do\<close> and \<open>_undo\<close> functions below, applied to what the closure captured at the
  call: the object, its key, and in \<open>#removeVertex\<close> and \<open>#removeLine\<close> the index
  \<open>i\<close> found at the call.  Vertices and lines pass their key as target; things pass no
  target and no parameter.  No helper passes \<open>coalescing\<close>, which is then \<open>true\<close>.
\<close>

definition addVertex_do :: "ref \<Rightarrow> key \<Rightarrow> (World, unit) prog" where
  "addVertex_do vertex k w =
     (Inr (), addToSpatialGrid (GVertex vertex)
                (w\<lparr>vertices := vertices w @ [vertex],
                   vertexMap := AList.update k vertex (vertexMap w)\<rparr>))"

definition addVertex_undo :: "key \<Rightarrow> (World, unit) prog" where
  "addVertex_undo k w =
     (case map_of (vertexMap w) k of
        None \<Rightarrow> (Inr (), w)
      | Some v \<Rightarrow>
          (let w1 = removeFromSpatialGrid (GVertex v) w
           in (Inr (), w1\<lparr>vertices := splice1 (indexOf v (vertices w1)) (vertices w1),
                           vertexMap := AList.delete k (vertexMap w1)\<rparr>)))"

definition priv_addVertex :: "ref \<Rightarrow> (DoomMap, unit) prog" where
  "priv_addVertex vertex m =
     (let k = createVertexKey (v_x (vertexObj (world m) vertex))
                (v_y (vertexObj (world m) vertex))
      in history_do (addVertex_do vertex k) (addVertex_undo k) (Some (TKey k)) None True m)"

definition removeVertex_do :: "ref \<Rightarrow> nat \<Rightarrow> key \<Rightarrow> (World, unit) prog" where
  "removeVertex_do vertex i k w =
     (let w1 = removeFromSpatialGrid (GVertex vertex) w
      in (Inr (), w1\<lparr>vertices := splice1 (Some i) (vertices w1),
                      vertexMap := AList.delete k (vertexMap w1)\<rparr>))"

definition removeVertex_undo :: "ref \<Rightarrow> key \<Rightarrow> (World, unit) prog" where
  "removeVertex_undo vertex k w =
     (case map_of (vertexMap w) k of
        Some v \<Rightarrow> (Inr (), w)
      | None \<Rightarrow>
          bind (Vertex_new (v_x (vertexObj w vertex)) (v_y (vertexObj w vertex)))
            (\<lambda>v. addVertex_do v k) w)"

definition priv_removeVertex :: "ref \<Rightarrow> (DoomMap, unit) prog" where
  "priv_removeVertex vertex m =
     (case indexOf vertex (vertices (world m)) of
        None \<Rightarrow> (Inl (Error ''Attempted to remove non-existent vertex''), m)
      | Some i \<Rightarrow>
          (let k = createVertexKey (v_x (vertexObj (world m) vertex))
                     (v_y (vertexObj (world m) vertex))
           in history_do (removeVertex_do vertex i k) (removeVertex_undo vertex k)
                (Some (TKey k)) None True m))"

definition lineKeyOf :: "World \<Rightarrow> ref \<Rightarrow> key" where
  "lineKeyOf w line =
     createLineKey (v_x (vertexObj w (l_v0 (lineObj w line))))
       (v_y (vertexObj w (l_v0 (lineObj w line))))
       (v_x (vertexObj w (l_v1 (lineObj w line))))
       (v_y (vertexObj w (l_v1 (lineObj w line))))"

definition addLine_do :: "ref \<Rightarrow> key \<Rightarrow> (World, unit) prog" where
  "addLine_do line k w =
     (Inr (), addToSpatialGrid (GLine line)
                (w\<lparr>modifiedLines := set_add line (modifiedLines w),
                   lines := lines w @ [line],
                   lineMap := AList.update k line (lineMap w)\<rparr>))"

definition unregisterLine :: "ref \<Rightarrow> key \<Rightarrow> World \<Rightarrow> World" where
  "unregisterLine l k w =
     w\<lparr>lines := splice1 (indexOf l (lines w)) (lines w),
       lineMap := AList.delete k (lineMap w)\<rparr>"

definition addLine_undo :: "key \<Rightarrow> (World, unit) prog" where
  "addLine_undo k w =
     (case map_of (lineMap w) k of
        None \<Rightarrow> (Inr (), w)
      | Some l \<Rightarrow>
          bind (Line_clearVertices l) (\<lambda>u. modify (unregisterLine l k))
            (removeFromSpatialGrid (GLine l)
               (w\<lparr>modifiedLines := set_add l (modifiedLines w)\<rparr>)))"

definition priv_addLine :: "ref \<Rightarrow> (DoomMap, unit) prog" where
  "priv_addLine line m =
     (let k = lineKeyOf (world m) line
      in history_do (addLine_do line k) (addLine_undo k) (Some (TKey k)) None True m)"

definition unregisterLineAt :: "nat \<Rightarrow> key \<Rightarrow> World \<Rightarrow> World" where
  "unregisterLineAt i k w =
     w\<lparr>lines := splice1 (Some i) (lines w), lineMap := AList.delete k (lineMap w)\<rparr>"

definition removeLine_do :: "ref \<Rightarrow> nat \<Rightarrow> key \<Rightarrow> (World, unit) prog" where
  "removeLine_do line i k w =
     bind (Line_clearVertices line) (\<lambda>u. modify (unregisterLineAt i k))
       (removeFromSpatialGrid (GLine line)
          (w\<lparr>modifiedLines := set_add line (modifiedLines w)\<rparr>))"

definition removeLine_undo :: "ref \<Rightarrow> key \<Rightarrow> (World, unit) prog" where
  "removeLine_undo line k w =
     (case map_of (lineMap w) k of
        Some l \<Rightarrow> (Inr (), w)
      | None \<Rightarrow>
          bind (Line_clone line (vertexMap w) (Some (l_v0 (lineObj w line)))
                  (Some (l_v1 (lineObj w line))))
            (\<lambda>l. addLine_do l k) w)"

definition priv_removeLine :: "ref \<Rightarrow> (DoomMap, unit) prog" where
  "priv_removeLine line m =
     (case indexOf line (lines (world m)) of
        None \<Rightarrow> (Inl (Error ''Attempted to remove non-existent line''), m)
      | Some i \<Rightarrow>
          (let k = lineKeyOf (world m) line
           in history_do (removeLine_do line i k) (removeLine_undo line k)
                (Some (TKey k)) None True m))"

definition addThing_do :: "ref \<Rightarrow> (World, unit) prog" where
  "addThing_do thing w =
     (case indexOf thing (things w) of
        None \<Rightarrow> (Inr (), addToSpatialGrid (GThing thing) (w\<lparr>things := things w @ [thing]\<rparr>))
      | Some i \<Rightarrow> (Inr (), w))"

definition addThing_undo :: "ref \<Rightarrow> (World, unit) prog" where
  "addThing_undo thing w =
     (case indexOf thing (things w) of
        None \<Rightarrow> (Inr (), w)
      | Some i \<Rightarrow>
          (let w1 = removeFromSpatialGrid (GThing thing) w
           in (Inr (), w1\<lparr>things := splice1 (Some i) (things w1)\<rparr>)))"

definition priv_addThing :: "ref \<Rightarrow> (DoomMap, unit) prog" where
  "priv_addThing thing = history_do (addThing_do thing) (addThing_undo thing) None None True"

definition removeThing_do :: "ref \<Rightarrow> (World, unit) prog" where
  "removeThing_do thing w =
     (case indexOf thing (things w) of
        None \<Rightarrow> (Inr (), w)
      | Some i \<Rightarrow>
          (let w1 = removeFromSpatialGrid (GThing thing) w
           in (Inr (), w1\<lparr>things := splice1 (Some i) (things w1)\<rparr>)))"

definition removeThing_undo :: "ref \<Rightarrow> (World, unit) prog" where
  "removeThing_undo thing w =
     (case indexOf thing (things w) of
        None \<Rightarrow> (Inr (), addToSpatialGrid (GThing thing) (w\<lparr>things := things w @ [thing]\<rparr>))
      | Some i \<Rightarrow> (Inr (), w))"

definition priv_removeThing :: "ref \<Rightarrow> (DoomMap, unit) prog" where
  "priv_removeThing thing m =
     (case indexOf thing (things (world m)) of
        None \<Rightarrow> (Inl (Error ''Attempted to remove non-existent thing''), m)
      | Some i \<Rightarrow>
          history_do (removeThing_do thing) (removeThing_undo thing) None None True m)"

text \<open>
  \<open>addThing(x, y, z = 0, typeId = 1, clone = null)\<close>.  The coordinates are not rounded.
\<close>

definition addThing :: "real \<Rightarrow> real \<Rightarrow> real \<Rightarrow> real \<Rightarrow> ref option \<Rightarrow> (DoomMap, ref) prog" where
  "addThing x y z0 ty clone =
     bind (liftW (case clone of None \<Rightarrow> Thing_new x y z0 ty 0 | Some c \<Rightarrow> Thing_clone c x y))
       (\<lambda>thing. bind (priv_addThing thing) (\<lambda>u. ret thing))"

definition removeThing :: "ref \<Rightarrow> (DoomMap, bool) prog" where
  "removeThing thing m =
     (if thing \<notin> set (things (world m))
      then (Inl (Error ''Attempted to remove non-existing thing''), m)
      else bind (priv_removeThing thing) (\<lambda>u. ret True) m)"

section \<open>Geometry iterators\<close>

text \<open>
  Modelled from the spec: \<open>#iterateGeometry\<close> calls \<open>geometry.isInside(boundsMin,
  boundsMax)\<close>, a method that the class Geometry of the source files does not define.  The
  specification describes the filter as the test that the entity's own bounds lie inside
  the query rectangle (``bounds \<open>\<subseteq>\<close> query''), which is what this definition says.  The
  infinite bounds of a sector without lines satisfy every comparison.
\<close>

definition Geometry_isInside :: "Bounds option \<Rightarrow> real \<times> real \<Rightarrow> real \<times> real \<Rightarrow> bool" where
  "Geometry_isInside b boundsMin boundsMax =
     (case b of
        None \<Rightarrow> True
      | Some b \<Rightarrow> fst boundsMin \<le> min_x b \<and> snd boundsMin \<le> min_y b \<and>
                  max_x b \<le> fst boundsMax \<and> max_y b \<le> snd boundsMax)"

text \<open>The objects of a list in order of first occurrence, skipping those already seen.\<close>

fun firstOccurrences :: "'a list \<Rightarrow> 'a list \<Rightarrow> 'a list" where
  "firstOccurrences seen [] = []"
| "firstOccurrences seen (x # xs) =
     (if x \<in> set seen then firstOccurrences seen xs
      else x # firstOccurrences (x # seen) xs)"

text \<open>
  The objects that the bounded branch of \<open>#iterateGeometry\<close> hands to the callback, each
  with its \<open>selected\<close> flag: the cells are read column by column, an object is taken at
  its first occurrence (the \<open>visited\<close> set), and it is passed on when it is inside the
  query bounds (and selected, under \<open>selectionOnly\<close>).  The branch never looks at the
  class of an object and never at the \<open>array\<close> argument: \<open>iterateLines\<close> with bounds
  visits the vertices, sectors and things in the cells as well as the lines.
\<close>

definition cellsOf :: "World \<Rightarrow> real \<times> real \<Rightarrow> real \<times> real \<Rightarrow> geometry list" where
  "cellsOf w boundsMin boundsMax =
     concat (map (\<lambda>x. case map_of (spatialGrid w) x of
                         None \<Rightarrow> []
                       | Some column \<Rightarrow>
                           concat (map (\<lambda>y. case map_of column y of None \<Rightarrow> [] | Some cell \<Rightarrow> cell)
                                     (cellRange (snd boundsMin) (snd boundsMax))))
               (cellRange (fst boundsMin) (fst boundsMax)))"

definition gridVisit :: "World \<Rightarrow> real \<times> real \<Rightarrow> real \<times> real \<Rightarrow> bool
    \<Rightarrow> (geometry \<times> bool) list" where
  "gridVisit w boundsMin boundsMax selectionOnly =
     map (\<lambda>g. (g, g \<in> set (selection w)))
       (filter (\<lambda>g. Geometry_isInside (boundsOf w g) boundsMin boundsMax
                     \<and> (\<not> selectionOnly \<or> g \<in> set (selection w)))
          (firstOccurrences [] (cellsOf w boundsMin boundsMax)))"

text \<open>
  A callback returns whether the iteration goes on: \<open>False\<close> stands for the value
  \<open>false\<close>, \<open>True\<close> for any other return value.
\<close>

primrec iterate :: "(geometry \<times> bool) list \<Rightarrow> (geometry \<Rightarrow> bool \<Rightarrow> ('s, bool) prog)
    \<Rightarrow> ('s, unit) prog" where
  "iterate [] func = ret ()"
| "iterate (g # gs) func =
     bind (func (fst g) (snd g))
       (\<lambda>continue. if continue then iterate gs func else ret ())"

datatype geometryClass = ClassVertex | ClassLine | ClassSector | ClassThing

fun classOf :: "geometry \<Rightarrow> geometryClass" where
  "classOf (GVertex r) = ClassVertex"
| "classOf (GLine r) = ClassLine"
| "classOf (GSector r) = ClassSector"
| "classOf (GThing r) = ClassThing"

text \<open>
  \<open>#iterateGeometry(array, func, boundsMin, boundsMax, selectionOnly)\<close>.  The bounds are
  \<open>None\<close> when either of them is \<open>null\<close>.  No callback of the core changes the grid,
  the selection or the bounds of an object, so the objects to visit are read from the world
  \<open>w\<close> as it is when the iteration starts.  The state \<open>'s\<close> of the callback is the map
  together with the local variables that the callback writes.
\<close>

definition iterateGeometry :: "World \<Rightarrow> geometry list
    \<Rightarrow> (geometry \<Rightarrow> bool \<Rightarrow> ('s, bool) prog) \<Rightarrow> ((real \<times> real) \<times> (real \<times> real)) option
    \<Rightarrow> bool \<Rightarrow> ('s, unit) prog" where
  "iterateGeometry w array func bounds selectionOnly =
     (case bounds of
        None \<Rightarrow>
          (if selectionOnly
           then forEach (filter (\<lambda>g. array \<noteq> [] \<and> classOf g = classOf (hd array)) (selection w))
                  (\<lambda>g. bind (func g True) (\<lambda>r. ret ()))
           else iterate (map (\<lambda>g. (g, g \<in> set (selection w))) array) func)
      | Some (boundsMin, boundsMax) \<Rightarrow>
          iterate (gridVisit w boundsMin boundsMax selectionOnly) func)"

definition iterateLines :: "World \<Rightarrow> (geometry \<Rightarrow> bool \<Rightarrow> ('s, bool) prog)
    \<Rightarrow> ((real \<times> real) \<times> (real \<times> real)) option \<Rightarrow> bool \<Rightarrow> ('s, unit) prog" where
  "iterateLines w = iterateGeometry w (map GLine (lines w))"

definition iterateSectors :: "World \<Rightarrow> (geometry \<Rightarrow> bool \<Rightarrow> ('s, bool) prog)
    \<Rightarrow> ((real \<times> real) \<times> (real \<times> real)) option \<Rightarrow> bool \<Rightarrow> ('s, unit) prog" where
  "iterateSectors w = iterateGeometry w (map GSector (sectors w))"

section \<open>Sector (sector.class.js)\<close>

definition updSector :: "ref \<Rightarrow> (Sector \<Rightarrow> Sector) \<Rightarrow> World \<Rightarrow> World" where
  "updSector r f w = w\<lparr>sectorObj := (sectorObj w)(r := f (sectorObj w r))\<rparr>"

definition updLine :: "ref \<Rightarrow> (Line \<Rightarrow> Line) \<Rightarrow> World \<Rightarrow> World" where
  "updLine r f w = w\<lparr>lineObj := (lineObj w)(r := f (lineObj w r))\<rparr>"

definition setFrontSector :: "ref \<Rightarrow> ref option \<Rightarrow> World \<Rightarrow> World" where
  "setFrontSector l v = updLine l (\<lambda>ln. ln\<lparr>l_front := (l_front ln)\<lparr>sector := v\<rparr>\<rparr>)"

definition setBackSector :: "ref \<Rightarrow> ref option \<Rightarrow> World \<Rightarrow> World" where
  "setBackSector l v = updLine l (\<lambda>ln. ln\<lparr>l_back := (l_back ln)\<lparr>sector := v\<rparr>\<rparr>)"

definition frontSector :: "World \<Rightarrow> ref \<Rightarrow> ref option" where
  "frontSector w l = sector (l_front (lineObj w l))"

definition backSector :: "World \<Rightarrow> ref \<Rightarrow> ref option" where
  "backSector w l = sector (l_back (lineObj w l))"

definition Properties_new :: Properties where
  "Properties_new =
     \<lparr>floorHeight = 0, ceilingHeight = 128, floorTexture = ''FLAT1'',
      ceilingTexture = ''CEIL1'', lightLevel = 160, tag = 0, special = 0\<rparr>"

text \<open>A line descriptor \<open>{v0: {x, y}, v1: {x, y}, front}\<close>.\<close>

record LineDesc =
  d_x0 :: real
  d_y0 :: real
  d_x1 :: real
  d_y1 :: real
  d_front :: bool

fun descBounds :: "Bounds option \<Rightarrow> LineDesc list \<Rightarrow> Bounds option" where
  "descBounds b [] = b"
| "descBounds b (d # ds) =
     descBounds
       (Some (case b of
                None \<Rightarrow> \<lparr>min_x = min (d_x0 d) (d_x1 d), min_y = min (d_y0 d) (d_y1 d),
                          max_x = max (d_x0 d) (d_x1 d), max_y = max (d_y0 d) (d_y1 d)\<rparr>
              | Some b \<Rightarrow> \<lparr>min_x = min (min_x b) (min (d_x0 d) (d_x1 d)),
                            min_y = min (min_y b) (min (d_y0 d) (d_y1 d)),
                            max_x = max (max_x b) (max (d_x0 d) (d_x1 d)),
                            max_y = max (max_y b) (max (d_y0 d) (d_y1 d))\<rparr>))
       ds"

text \<open>One round of the second loop of the constructor, for descriptor number \<open>i\<close>.\<close>

definition Sector_attach :: "ref \<Rightarrow> (key \<times> ref) list \<Rightarrow> nat \<times> LineDesc \<Rightarrow> (World, unit) prog" where
  "Sector_attach this lmap p w =
     (let i = fst p; d = snd p in
      case map_of lmap (createLineKey (d_x0 d) (d_y0 d) (d_x1 d) (d_y1 d)) of
        None \<Rightarrow> (Inl (Error ''Sector reference to missing line''), w)
      | Some l \<Rightarrow>
          (let w1 = updSector this (\<lambda>sc. sc\<lparr>s_lines := s_lines sc @ [l]\<rparr>) w;
               a = vertexObj w1 (l_v0 (lineObj w1 l));
               b = vertexObj w1 (l_v1 (lineObj w1 l))
           in if d_front d
              then (if frontSector w1 l \<noteq> None
                    then (Inl (Error ''Line already assigned to a front sector''), w1)
                    else (Inr (),
                          updSector this
                            (\<lambda>sc. sc\<lparr>flatXY := flatXY sc
                                      @ (if i = 0 then [v_x a, v_y a] else [])
                                      @ [v_x b, v_y b]\<rparr>)
                            (setFrontSector l (Some this) w1)))
              else (if backSector w1 l \<noteq> None
                    then (Inl (Error ''Line already assigned to a back sector''), w1)
                    else (Inr (),
                          updSector this
                            (\<lambda>sc. sc\<lparr>flatXY := flatXY sc
                                      @ (if i = 0 then [v_x b, v_y b] else [])
                                      @ [v_x a, v_y a]\<rparr>)
                            (setBackSector l (Some this) w1)))))"

text \<open>\<open>new Sector(lineMap, lines)\<close>.\<close>

definition Sector_new :: "(key \<times> ref) list \<Rightarrow> LineDesc list \<Rightarrow> (World, ref) prog" where
  "Sector_new lmap descs w =
     (let r = nextRef w;
          w1 = w\<lparr>sectorObj := (sectorObj w)
                   (r := \<lparr>s_bounds = descBounds None descs, s_lines = [], flatXY = [],
                          s_map = False, parent = None, children = [],
                          properties = Properties_new\<rparr>),
                 nextRef := Suc r\<rparr>
      in bind (forEach (enumerate 0 descs) (Sector_attach r lmap)) (\<lambda>u. ret r) w1)"

text \<open>\<open>clone(lineMap, lines)\<close>: a new sector with the properties of this one.\<close>

definition copyProperties :: "ref \<Rightarrow> ref \<Rightarrow> World \<Rightarrow> World" where
  "copyProperties r this w =
     updSector r (\<lambda>sc. sc\<lparr>properties := properties (sectorObj w this)\<rparr>) w"

definition Sector_clone :: "ref \<Rightarrow> (key \<times> ref) list \<Rightarrow> LineDesc list \<Rightarrow> (World, ref) prog" where
  "Sector_clone this lmap descs =
     bind (Sector_new lmap descs) (\<lambda>r. bind (modify (copyProperties r this)) (\<lambda>u. ret r))"

text \<open>
  \<open>childOf(parent)\<close> walks up the parent references until it meets \<open>parent\<close> or
  \<open>null\<close>.  The walk is given as many steps as there are objects; a walk that needs more
  runs in a cycle that does not contain \<open>parent\<close>, where the source loops for ever:
  \<open>None\<close>.
\<close>

fun childOfFrom :: "nat \<Rightarrow> World \<Rightarrow> ref option \<Rightarrow> ref \<Rightarrow> bool option" where
  "childOfFrom n w None parent' = Some False"
| "childOfFrom 0 w (Some p) parent' = None"
| "childOfFrom (Suc n) w (Some p) parent' =
     (if p = parent' then Some True else childOfFrom n w (parent (sectorObj w p)) parent')"

definition Sector_childOf :: "World \<Rightarrow> ref \<Rightarrow> ref \<Rightarrow> bool option" where
  "Sector_childOf w this parent' =
     childOfFrom (Suc (nextRef w)) w (parent (sectorObj w this)) parent'"

text \<open>
  The first callback of \<open>addToMap\<close>, looking for the parent.  The callback is written
  for sectors, but the bounded iteration hands it every object in the cells.  For an object
  of another class \<open>other.bounds\<close> still reads; when the four comparisons hold,
  \<open>polygonContainsAllVertices\<close> is called with \<open>other.flatXY\<close>, which is
  \<open>undefined\<close>, and reading its \<open>length\<close> throws a TypeError.
\<close>

definition boundsWithin :: "Bounds \<Rightarrow> Bounds \<Rightarrow> bool" where
  "boundsWithin b1 b2 =
     (min_x b1 \<ge> min_x b2 \<and> min_y b1 \<ge> min_y b2 \<and>
      max_x b1 \<le> max_x b2 \<and> max_y b1 \<le> max_y b2)"

definition addToMap_findParent :: "ref \<Rightarrow> Bounds \<Rightarrow> geometry \<Rightarrow> bool \<Rightarrow> (World, bool) prog" where
  "addToMap_findParent this b1 g selected w =
     (case g of
        GSector other \<Rightarrow>
          (if other = this then (Inr True, w)
           else
             (let isInside =
                    ((case s_bounds (sectorObj w other) of
                        None \<Rightarrow> False
                      | Some b2 \<Rightarrow> boundsWithin b1 b2)
                     \<and> polygonContainsAllVertices (flatXY (sectorObj w this))
                          (flatXY (sectorObj w other)))
              in if \<not> isInside then (Inr True, w)
                 else
                   (case parent (sectorObj w this) of
                      None \<Rightarrow> (Inr True, updSector this (\<lambda>sc. sc\<lparr>parent := Some other\<rparr>) w)
                    | Some p \<Rightarrow>
                        (case Sector_childOf w other p of
                           None \<Rightarrow> (Inl Diverges, w)
                         | Some True \<Rightarrow>
                             (Inr True, updSector this (\<lambda>sc. sc\<lparr>parent := Some other\<rparr>) w)
                         | Some False \<Rightarrow> (Inr True, w)))))
      | _ \<Rightarrow>
          (case boundsOf w g of
             None \<Rightarrow> (Inr True, w)
           | Some b2 \<Rightarrow> if boundsWithin b1 b2 then (Inl TypeError, w) else (Inr True, w)))"

text \<open>
  The second callback, adopting siblings that lie inside this sector.  The test
  \<open>other.#parent !== this.#parent\<close> reads a private field of Sector; on an object of
  another class that read throws a TypeError.
\<close>

definition addToMap_adopt :: "ref \<Rightarrow> Bounds \<Rightarrow> geometry \<Rightarrow> bool \<Rightarrow> (World, bool) prog" where
  "addToMap_adopt this b1 g selected w =
     (case g of
        GSector other \<Rightarrow>
          (if other = this \<or> parent (sectorObj w other) \<noteq> parent (sectorObj w this)
           then (Inr True, w)
           else
             (let contains =
                    ((case s_bounds (sectorObj w other) of
                        None \<Rightarrow> True
                      | Some b2 \<Rightarrow> boundsWithin b2 b1)
                     \<and> polygonContainsAllVertices (flatXY (sectorObj w other))
                          (flatXY (sectorObj w this)))
              in if \<not> contains then (Inr True, w)
                 else
                   (let w1 = (case parent (sectorObj w other) of
                                None \<Rightarrow> w
                              | Some p \<Rightarrow>
                                  updSector p
                                    (\<lambda>sc. sc\<lparr>children :=
                                        splice1 (indexOf other (children sc)) (children sc)\<rparr>) w);
                        w2 = updSector this (\<lambda>sc. sc\<lparr>children := children sc @ [other]\<rparr>) w1
                    in (Inr True, updSector other (\<lambda>sc. sc\<lparr>parent := Some this\<rparr>) w2))))
      | _ \<Rightarrow> (Inl TypeError, w))"

definition addToMap_patchSides :: "ref \<Rightarrow> ref \<Rightarrow> (World, unit) prog" where
  "addToMap_patchSides this line w =
     (if frontSector w line = Some this \<and> backSector w line = None
      then (Inr (), setBackSector line (parent (sectorObj w this)) w)
      else if backSector w line = Some this \<and> frontSector w line = None
      then (Inr (), setFrontSector line (parent (sectorObj w this)) w)
      else (Inr (), w))"

text \<open>
  \<open>addToMap(map)\<close>.  With the infinite bounds of a sector without lines the two
  iterations visit no cell.
\<close>

definition addToMap_search :: "(ref \<Rightarrow> Bounds \<Rightarrow> geometry \<Rightarrow> bool \<Rightarrow> (World, bool) prog)
    \<Rightarrow> ref \<Rightarrow> (World, unit) prog" where
  "addToMap_search func this w =
     (case s_bounds (sectorObj w this) of
        None \<Rightarrow> (Inr (), w)
      | Some b1 \<Rightarrow>
          iterateSectors w (func this b1)
            (Some ((min_x b1, min_y b1), (max_x b1, max_y b1))) False w)"

definition addToMap_registerChild :: "ref \<Rightarrow> World \<Rightarrow> World" where
  "addToMap_registerChild this w =
     (case parent (sectorObj w this) of
        None \<Rightarrow> w
      | Some p \<Rightarrow> updSector p (\<lambda>sc. sc\<lparr>children := children sc @ [this]\<rparr>) w)"

definition addToMap_patchLines :: "ref \<Rightarrow> (World, unit) prog" where
  "addToMap_patchLines this w =
     forEach (s_lines (sectorObj w this)) (addToMap_patchSides this) w"

definition Sector_addToMap :: "ref \<Rightarrow> (World, unit) prog" where
  "Sector_addToMap this w =
     (if s_map (sectorObj w this)
      then (Inl (Error ''Sector has already been added to a map''), w)
      else
        bind (addToMap_search addToMap_findParent this)
          (\<lambda>u. bind (modify (addToMap_registerChild this))
             (\<lambda>u. bind (addToMap_search addToMap_adopt this)
                (\<lambda>u. addToMap_patchLines this)))
          (updSector this (\<lambda>sc. sc\<lparr>s_map := True\<rparr>) w))"

definition removeFromMap_restoreSide :: "ref \<Rightarrow> ref \<Rightarrow> (World, unit) prog" where
  "removeFromMap_restoreSide this line w =
     (if frontSector w line = Some this
      then (Inr (), setFrontSector line (parent (sectorObj w this)) w)
      else if backSector w line = Some this
      then (Inr (), setBackSector line (parent (sectorObj w this)) w)
      else (Inr (), w))"

definition removeFromMap_reparent :: "ref \<Rightarrow> ref \<Rightarrow> (World, unit) prog" where
  "removeFromMap_reparent this child w =
     (let w1 = updSector child (\<lambda>sc. sc\<lparr>parent := parent (sectorObj w this)\<rparr>) w
      in (Inr (), case parent (sectorObj w1 this) of
                    None \<Rightarrow> w1
                  | Some p \<Rightarrow> updSector p (\<lambda>sc. sc\<lparr>children := children sc @ [child]\<rparr>) w1))"

definition removeFromMap_reparentAll :: "ref \<Rightarrow> (World, unit) prog" where
  "removeFromMap_reparentAll this w =
     forEach (children (sectorObj w this)) (removeFromMap_reparent this) w"

definition removeFromMap_detach :: "ref \<Rightarrow> (World, unit) prog" where
  "removeFromMap_detach this w =
     (let w3 = updSector this (\<lambda>sc. sc\<lparr>children := []\<rparr>) w
      in case parent (sectorObj w3 this) of
           None \<Rightarrow> (Inr (), updSector this (\<lambda>sc. sc\<lparr>s_map := False\<rparr>) w3)
         | Some p \<Rightarrow>
             (case indexOf this (children (sectorObj w3 p)) of
                None \<Rightarrow> (Inl (Error ''Missing child in sector''), w3)
              | Some i \<Rightarrow>
                  (let w4 = updSector p
                              (\<lambda>sc. sc\<lparr>children := splice1 (Some i) (children sc)\<rparr>) w3;
                       w5 = updSector this (\<lambda>sc. sc\<lparr>parent := None\<rparr>) w4
                   in (Inr (), updSector this (\<lambda>sc. sc\<lparr>s_map := False\<rparr>) w5))))"

definition Sector_removeFromMap :: "ref \<Rightarrow> (World, unit) prog" where
  "Sector_removeFromMap this w =
     (if \<not> s_map (sectorObj w this)
      then (Inl (Error ''Sector has not been added to a map''), w)
      else
        bind (forEach (s_lines (sectorObj w this)) (removeFromMap_restoreSide this))
          (\<lambda>u. bind (removeFromMap_reparentAll this) (\<lambda>u. removeFromMap_detach this))
          w)"

definition clearLines_side :: "ref \<Rightarrow> ref \<Rightarrow> (World, unit) prog" where
  "clearLines_side this line w =
     (if backSector w line = Some this then (Inr (), setBackSector line None w)
      else if frontSector w line = Some this then (Inr (), setFrontSector line None w)
      else (Inl (Error ''Line not connected to this sector''), w))"

text \<open>\<open>clearLines()\<close> refuses to run on a sector that is still in a map.\<close>

definition Sector_clearLines :: "ref \<Rightarrow> (World, unit) prog" where
  "Sector_clearLines this w =
     (if s_map (sectorObj w this)
      then (Inl (Error ''Attempted to clear sector lines without calling removeFromMap() first''),
            w)
      else bind (forEach (s_lines (sectorObj w this)) (clearLines_side this))
             (\<lambda>u. modify (updSector this (\<lambda>sc. sc\<lparr>s_lines := []\<rparr>))) w)"

text \<open>
  \<open>#addSector\<close> and \<open>#removeSector\<close>; neither goes through the history.
  \<open>#removeSector\<close> calls \<open>clearLines\<close> before \<open>removeFromMap\<close>.
\<close>

definition registerSector :: "ref \<Rightarrow> World \<Rightarrow> World" where
  "registerSector sc w = addToSpatialGrid (GSector sc) (w\<lparr>sectors := sectors w @ [sc]\<rparr>)"

definition priv_addSector :: "ref \<Rightarrow> (World, unit) prog" where
  "priv_addSector sc =
     bind (Sector_addToMap sc) (\<lambda>u. modify (registerSector sc))"

definition unregisterSector :: "ref \<Rightarrow> nat \<Rightarrow> World \<Rightarrow> World" where
  "unregisterSector sc i w =
     (removeFromSpatialGrid (GSector sc) w)\<lparr>sectors := splice1 (Some i) (sectors w)\<rparr>"

definition priv_removeSector :: "ref \<Rightarrow> (World, unit) prog" where
  "priv_removeSector sc w =
     (case indexOf sc (sectors w) of
        None \<Rightarrow> (Inl (Error ''Attempted to remove non-existent sector''), w)
      | Some i \<Rightarrow>
          bind (Sector_clearLines sc)
            (\<lambda>u. bind (modify (unregisterSector sc i)) (\<lambda>u. Sector_removeFromMap sc))
            w)"

section \<open>Sector construction (rebuildSectors)\<close>

text \<open>
  The callbacks of \<open>edges.forEach\<close> in the source leave a round with \<open>continue\<close>; it
  is read as the end of that round (\<open>return\<close>).

  A directed edge \<open>{from, to, line, forward}\<close>.  Every line of the working set gives one
  forward and one reverse edge, so an edge object is identified by its fields; the
  \<open>visited\<close> flags are kept as the list of the edges marked.
\<close>

record Edge =
  e_from :: ref
  e_to :: ref
  e_line :: ref
  e_forward :: bool

definition localLinesOf :: "World \<Rightarrow> ref list" where
  "localLinesOf w =
     (let localLines0 = foldl (\<lambda>acc line. set_add line acc) [] (modifiedLines w);
          localVertices =
            foldl (\<lambda>acc line. set_add (l_v1 (lineObj w line))
                                 (set_add (l_v0 (lineObj w line)) acc))
              [] (modifiedLines w)
      in foldl (\<lambda>acc vertex. foldl (\<lambda>acc' line. set_add line acc') acc
                                (v_lines (vertexObj w vertex)))
           localLines0 localVertices)"

text \<open>One round of the invalidation loop: the world and the \<open>invalidated\<close> set.\<close>

definition invalidateLine :: "World \<times> ref list \<Rightarrow> ref \<Rightarrow> World \<times> ref list" where
  "invalidateLine = (\<lambda>(w, invalidated) line.
     (let w1 = updLine line
                 (\<lambda>ln. ln\<lparr>l_front := (l_front ln)\<lparr>sectorOld := sector (l_front ln)\<rparr>\<rparr>) w;
          inv1 = (case frontSector w line of
                    None \<Rightarrow> invalidated
                  | Some sc \<Rightarrow> set_add sc invalidated);
          w2 = updLine line
                 (\<lambda>ln. ln\<lparr>l_back := (l_back ln)\<lparr>sectorOld := sector (l_back ln)\<rparr>\<rparr>) w1;
          inv2 = (case backSector w1 line of
                    None \<Rightarrow> inv1
                  | Some sc \<Rightarrow> set_add sc inv1)
      in (w2, inv2)))"

definition edgesOf :: "World \<Rightarrow> ref list \<Rightarrow> Edge list" where
  "edgesOf w localLines =
     concat (map (\<lambda>line.
        [\<lparr>e_from = l_v0 (lineObj w line), e_to = l_v1 (lineObj w line), e_line = line,
          e_forward = True\<rparr>,
         \<lparr>e_from = l_v1 (lineObj w line), e_to = l_v0 (lineObj w line), e_line = line,
          e_forward = False\<rparr>]) localLines)"

definition pushOutgoing :: "(ref \<times> Edge list) list \<Rightarrow> Edge \<Rightarrow> (ref \<times> Edge list) list" where
  "pushOutgoing outgoing e =
     AList.update (e_from e)
       ((case map_of outgoing (e_from e) of None \<Rightarrow> [] | Some arr \<Rightarrow> arr) @ [e]) outgoing"

definition edgeAngle :: "World \<Rightarrow> ref \<Rightarrow> ref \<Rightarrow> real" where
  "edgeAngle w a b =
     angleTo (v_x (vertexObj w a)) (v_y (vertexObj w a))
       (v_x (vertexObj w b)) (v_y (vertexObj w b))"

text \<open>
  The outgoing edges of each vertex, sorted by their angle; \<open>Array.prototype.sort\<close> is
  stable, as \<open>sort_key\<close> is.
\<close>

definition outgoingOf :: "World \<Rightarrow> Edge list \<Rightarrow> (ref \<times> Edge list) list" where
  "outgoingOf w edges =
     map (\<lambda>(vertex, arr). (vertex, sort_key (\<lambda>e. edgeAngle w vertex (e_to e)) arr))
       (foldl pushOutgoing [] edges)"

text \<open>\<open>nextLeft(edge)\<close>; \<open>bestDelta\<close> is \<open>None\<close> while it is \<open>Infinity\<close>.\<close>

definition nextLeft :: "World \<Rightarrow> (ref \<times> Edge list) list \<Rightarrow> Edge \<Rightarrow> Edge option" where
  "nextLeft w outgoing edge =
     (let pivot = e_to edge
      in case map_of outgoing pivot of
           None \<Rightarrow> None
         | Some outs \<Rightarrow>
             if outs = [] then None
             else
               (let baseAngle = edgeAngle w pivot (e_from edge);
                    delta = (\<lambda>c. angleToCcw baseAngle (edgeAngle w pivot (e_to c)));
                    best = fst (foldl (\<lambda>(best, bestDelta) c.
                                   if delta c > 0 \<and>
                                      (case bestDelta of None \<Rightarrow> True | Some d \<Rightarrow> delta c < d)
                                   then (Some c, Some (delta c)) else (best, bestDelta))
                                 (None, None) outs);
                    best' = (case best of
                               Some b \<Rightarrow> Some b
                             | None \<Rightarrow>
                                 fst (foldl (\<lambda>(best, maxDelta) c.
                                        if delta c > maxDelta then (Some c, delta c)
                                        else (best, maxDelta))
                                      (None, - 1) outs))
                in Some (case best' of Some b \<Rightarrow> b | None \<Rightarrow> hd outs)))"

text \<open>
  The \<open>while\<close> loop of one trace, entered with the current edge \<open>e\<close>.  It returns
  \<open>closed\<close>, \<open>loopEdges\<close> and \<open>xy\<close>.
\<close>

function traceLoop :: "World \<Rightarrow> (ref \<times> Edge list) list \<Rightarrow> Edge \<Rightarrow> Edge option \<Rightarrow> Edge list
    \<Rightarrow> real list \<Rightarrow> nat \<Rightarrow> bool \<times> Edge list \<times> real list" where
  "traceLoop w outgoing start e loopEdges xy guard =
     (case e of
        None \<Rightarrow> (False, loopEdges, xy)
      | Some ed \<Rightarrow>
          if ed \<in> set loopEdges then (False, loopEdges, xy)
          else
            (let loopEdges' = loopEdges @ [ed];
                 xy' = xy @ [v_x (vertexObj w (e_from ed)), v_y (vertexObj w (e_from ed))]
             in case nextLeft w outgoing ed of
                  None \<Rightarrow> (False, loopEdges', xy')
                | Some n \<Rightarrow>
                    if guard + 1 > 100000 then (False, loopEdges', xy')
                    else if n = start then (True, loopEdges', xy')
                    else traceLoop w outgoing start (Some n) loopEdges' xy' (guard + 1)))"
  by pat_completeness auto
termination
  by (relation "measure (\<lambda>(w, outgoing, start, e, loopEdges, xy, guard). 100001 - guard)") auto

text \<open>One round of \<open>edges.forEach(start => ...)\<close>: the edges marked and the loops found.\<close>

definition traceFrom :: "World \<Rightarrow> (ref \<times> Edge list) list
    \<Rightarrow> Edge list \<times> (Edge list \<times> real list) list \<Rightarrow> Edge
    \<Rightarrow> Edge list \<times> (Edge list \<times> real list) list" where
  "traceFrom w outgoing = (\<lambda>(visited, loops) start.
     if start \<in> set visited then (visited, loops)
     else
       (case traceLoop w outgoing start (Some start) [] [] 0 of
          (isClosed, loopEdges, xy) \<Rightarrow>
            if \<not> isClosed \<or> length xy < 6 then (visited, loops)
            else
              (let xy' = xy @ [elemAt xy 0, elemAt xy 1]
               in if signedArea2d xy' > 0
                  then (visited @ loopEdges, loops @ [(loopEdges, xy')])
                  else (visited, loops))))"

definition descOf :: "World \<Rightarrow> Edge \<Rightarrow> LineDesc" where
  "descOf w edge =
     \<lparr>d_x0 = v_x (vertexObj w (l_v0 (lineObj w (e_line edge)))),
      d_y0 = v_y (vertexObj w (l_v0 (lineObj w (e_line edge)))),
      d_x1 = v_x (vertexObj w (l_v1 (lineObj w (e_line edge)))),
      d_y1 = v_y (vertexObj w (l_v1 (lineObj w (e_line edge)))),
      d_front = e_forward edge\<rparr>"

text \<open>The sector found on the left of an edge before the rebuild, the override first.\<close>

definition oldLeft :: "World \<Rightarrow> Edge \<Rightarrow> ref option" where
  "oldLeft w edge =
     (let side = (if e_forward edge then l_front (lineObj w (e_line edge))
                  else l_back (lineObj w (e_line edge)))
      in case sectorOverride side of Some sc \<Rightarrow> Some sc | None \<Rightarrow> sectorOld side)"

fun templateSector :: "World \<Rightarrow> Edge list \<Rightarrow> ref option" where
  "templateSector w [] = None"
| "templateSector w (edge # rest) =
     (case oldLeft w edge of Some sc \<Rightarrow> Some sc | None \<Rightarrow> templateSector w rest)"

definition buildSector :: "Edge list \<times> real list \<Rightarrow> (World, unit) prog" where
  "buildSector loop w =
     bind (case templateSector w (fst loop) of
             Some t \<Rightarrow> Sector_clone t (lineMap w) (map (descOf w) (fst loop))
           | None \<Rightarrow> Sector_new (lineMap w) (map (descOf w) (fst loop)))
       priv_addSector w"

definition clearOverride :: "ref \<Rightarrow> World \<Rightarrow> World" where
  "clearOverride line =
     updLine line
       (\<lambda>ln. ln\<lparr>l_front := (l_front ln)\<lparr>sectorOverride := None\<rparr>,
                 l_back := (l_back ln)\<lparr>sectorOverride := None\<rparr>\<rparr>)"

text \<open>
  \<open>rebuildSectors()\<close>.  The last loop clears \<open>sectorOverride\<close> on the lines of the map;
  \<open>sectorOld\<close> is written by the invalidation loop only.
\<close>

definition rebuildLoops :: "ref list \<Rightarrow> (World, unit) prog" where
  "rebuildLoops localLines w =
     (let edges = edgesOf w localLines;
          outgoing = outgoingOf w edges;
          loops = snd (foldl (traceFrom w outgoing) ([], []) edges)
      in forEach loops buildSector w)"

definition clearOverrides :: "World \<Rightarrow> World" where
  "clearOverrides w = (fold clearOverride (lines w) w)\<lparr>modifiedLines := []\<rparr>"

definition rebuildSectors :: "(World, unit) prog" where
  "rebuildSectors w =
     (if modifiedLines w = [] then (Inr (), w)
      else
        (let localLines = localLinesOf w;
             invalidation = foldl invalidateLine (w, []) localLines
         in bind (forEach (snd invalidation) priv_removeSector)
              (\<lambda>u. bind (rebuildLoops localLines) (\<lambda>u. modify clearOverrides))
              (fst invalidation)))"

section \<open>Manipulation API: vertices\<close>

definition cloneLine :: "ref \<Rightarrow> ref option \<Rightarrow> ref option \<Rightarrow> (World, ref) prog" where
  "cloneLine line v0 v1 w = Line_clone line (vertexMap w) v0 v1 w"

definition splitLine :: "ref \<Rightarrow> ref \<Rightarrow> (DoomMap, unit) prog" where
  "splitLine vertex line m =
     bind (liftW (cloneLine line (Some (l_v0 (lineObj (world m) line))) (Some vertex)))
       (\<lambda>lA. bind (liftW (cloneLine line (Some vertex)
                            (Some (l_v1 (lineObj (world m) line)))))
          (\<lambda>lB. bind (priv_addLine lA)
             (\<lambda>u. bind (priv_addLine lB)
                (\<lambda>u. priv_removeLine line))))
       m"

definition linesToSplit :: "World \<Rightarrow> real \<Rightarrow> real \<Rightarrow> ref list" where
  "linesToSplit w vx vy =
     filter (\<lambda>line.
        (let a = vertexObj w (l_v0 (lineObj w line)); b = vertexObj w (l_v1 (lineObj w line))
         in orientation (v_x a) (v_y a) (v_x b) (v_y b) vx vy = 0
            \<and> onSegment (v_x a) (v_y a) vx vy (v_x b) (v_y b)))
       (lines w)"

text \<open>\<open>addVertex(x, y, skipRebuild = false)\<close>.\<close>

definition splitLinesAt :: "ref \<Rightarrow> real \<Rightarrow> real \<Rightarrow> (DoomMap, unit) prog" where
  "splitLinesAt vertex vx vy m = forEach (linesToSplit (world m) vx vy) (splitLine vertex) m"

definition rebuildUnless :: "bool \<Rightarrow> (DoomMap, unit) prog" where
  "rebuildUnless skipRebuild = (if skipRebuild then ret () else liftW rebuildSectors)"

definition addVertex :: "real \<Rightarrow> real \<Rightarrow> bool \<Rightarrow> (DoomMap, ref) prog" where
  "addVertex x y skipRebuild m =
     (let vx = Math_round x; vy = Math_round y
      in case map_of (vertexMap (world m)) (createVertexKey vx vy) of
           Some existing \<Rightarrow> (Inr existing, m)
         | None \<Rightarrow>
             bind (liftW (Vertex_new vx vy))
               (\<lambda>vertex. bind (priv_addVertex vertex)
                  (\<lambda>u. bind (splitLinesAt vertex vx vy)
                     (\<lambda>u. bind (rebuildUnless skipRebuild) (\<lambda>u. ret vertex))))
               m)"

text \<open>
  The loop \<open>while (vertex.lines.length > 0) this.#removeLine(vertex.lines[0])\<close>.  Every
  round that does not throw takes one line out of the lines of the map, and a round on a
  line that is not among them throws, so the loop makes at most one round more than the
  map has lines; \<open>n\<close> counts the rounds left.
\<close>

fun removeIncidentLines :: "nat \<Rightarrow> ref \<Rightarrow> (DoomMap, unit) prog" where
  "removeIncidentLines 0 vertex m = (Inl Diverges, m)"
| "removeIncidentLines (Suc n) vertex m =
     (case v_lines (vertexObj (world m) vertex) of
        [] \<Rightarrow> (Inr (), m)
      | line # rest \<Rightarrow> bind (priv_removeLine line) (\<lambda>u. removeIncidentLines n vertex) m)"

text \<open>\<open>removeVertex(x, y, skipRebuild = false)\<close>.\<close>

definition removeVertex :: "real \<Rightarrow> real \<Rightarrow> bool \<Rightarrow> (DoomMap, bool) prog" where
  "removeVertex x y skipRebuild m =
     (case map_of (vertexMap (world m)) (createVertexKey (Math_round x) (Math_round y)) of
        None \<Rightarrow> (Inr False, m)
      | Some vertex \<Rightarrow>
          bind (removeIncidentLines (length (lines (world m)) + 2) vertex)
            (\<lambda>u. bind (priv_removeVertex vertex)
               (\<lambda>u. bind (rebuildUnless skipRebuild) (\<lambda>u. ret True)))
            m)"


section \<open>Math helpers: wouldSegmentCrossAny\<close>

text \<open>
  The callback of \<open>#wouldSegmentCrossAny\<close>; its state is the variable \<open>result\<close>.  An
  object that is not a line is not in the \<open>ignore\<close> set, and reading \<open>line.v0.x\<close> on it
  throws a TypeError, \<open>line.v0\<close> being \<open>undefined\<close>.
\<close>

definition crossCallback :: "World \<Rightarrow> real \<Rightarrow> real \<Rightarrow> real \<Rightarrow> real \<Rightarrow> ref list option
    \<Rightarrow> geometry \<Rightarrow> bool \<Rightarrow> (ref option, bool) prog" where
  "crossCallback w x0 y0 x1 y1 ignore g selected result =
     (case g of
        GLine line \<Rightarrow>
          (if (case ignore of None \<Rightarrow> False | Some ig \<Rightarrow> line \<in> set ig) then (Inr True, result)
           else
             (let x2 = v_x (vertexObj w (l_v0 (lineObj w line)));
                  y2 = v_y (vertexObj w (l_v0 (lineObj w line)));
                  x3 = v_x (vertexObj w (l_v1 (lineObj w line)));
                  y3 = v_y (vertexObj w (l_v1 (lineObj w line)));
                  sharesEndpoint =
                    ((x0 = x2 \<and> y0 = y2) \<or> (x0 = x3 \<and> y0 = y3) \<or>
                     (x1 = x2 \<and> y1 = y2) \<or> (x1 = x3 \<and> y1 = y3))
              in if sharesEndpoint then (Inr True, result)
                 else if segmentsProperlyIntersect x0 y0 x1 y1 x2 y2 x3 y3
                 then (Inr False, Some line)
                 else if collinearOverlapMoreThanEndpoint x0 y0 x1 y1 x2 y2 x3 y3
                 then (Inr False, Some line)
                 else (Inr True, result)))
      | _ \<Rightarrow> (Inl TypeError, result))"

text \<open>\<open>#wouldSegmentCrossAny(x0, y0, x1, y1, boundsMin, boundsMax, ignore = null)\<close>:
  the line found or \<open>null\<close>, or the error thrown.\<close>

definition wouldSegmentCrossAny :: "World \<Rightarrow> real \<Rightarrow> real \<Rightarrow> real \<Rightarrow> real
    \<Rightarrow> real \<times> real \<Rightarrow> real \<times> real \<Rightarrow> ref list option \<Rightarrow> error + ref option" where
  "wouldSegmentCrossAny w x0 y0 x1 y1 boundsMin boundsMax ignore =
     (case iterateLines w (crossCallback w x0 y0 x1 y1 ignore) (Some (boundsMin, boundsMax))
             False None of
        (Inl e, result) \<Rightarrow> Inl e
      | (Inr u, result) \<Rightarrow> Inr result)"

section \<open>Manipulation API: addLine\<close>

text \<open>
  \<open>properIntersectionPoint\<close> writes its result into the one object \<open>intersection\<close>
  and returns that object, and the callback pushes it on \<open>hits\<close>: every element of
  \<open>hits\<close> is the same object.  The state of the callback is the current content
  \<open>(x, y, t)\<close> of \<open>intersection\<close> and the number of pushes.
\<close>

definition properIntersectionPoint ::
  "real \<Rightarrow> real \<Rightarrow> real \<Rightarrow> real \<Rightarrow> real \<Rightarrow> real \<Rightarrow> real \<Rightarrow> real \<Rightarrow> real \<times> real \<times> real" where
  "properIntersectionPoint ax ay bx by' cx cy dx dy =
     (let rpx = bx - ax; rpy = by' - ay; spx = dx - cx; spy = dy - cy;
          d = rpx * spy - rpy * spx;
          t = ((cx - ax) * spy - (cy - ay) * spx) / d;
          ix = ax + t * rpx;
          iy = ay + t * rpy
      in (Math_round ix, Math_round iy, t))"

definition hitsCallback :: "World \<Rightarrow> real \<Rightarrow> real \<Rightarrow> real \<Rightarrow> real \<Rightarrow> geometry \<Rightarrow> bool
    \<Rightarrow> ((real \<times> real \<times> real) \<times> nat, bool) prog" where
  "hitsCallback w x0 y0 x1 y1 g selected st =
     (case g of
        GLine line \<Rightarrow>
          (let lx0 = v_x (vertexObj w (l_v0 (lineObj w line)));
               ly0 = v_y (vertexObj w (l_v0 (lineObj w line)));
               lx1 = v_x (vertexObj w (l_v1 (lineObj w line)));
               ly1 = v_y (vertexObj w (l_v1 (lineObj w line)));
               sharesEndpoint =
                 (x0 = lx0 \<and> y0 = ly0 \<or> x0 = lx1 \<and> y0 = ly1 \<or>
                  x1 = lx0 \<and> y1 = ly0 \<or> x1 = lx1 \<and> y1 = ly1)
           in if sharesEndpoint then (Inr True, st)
              else if segmentsProperlyIntersect x0 y0 x1 y1 lx0 ly0 lx1 ly1
              then (let hit = properIntersectionPoint x0 y0 x1 y1 lx0 ly0 lx1 ly1
                    in if snd (snd hit) > 0 \<and> snd (snd hit) < 1
                       then (Inr True, (hit, Suc (snd st)))
                       else (Inr True, (hit, snd st)))
              else (Inr True, st))
      | _ \<Rightarrow> (Inl TypeError, st))"

text \<open>\<open>projectT\<close> for the segment from \<open>(sx, sy)\<close> with direction \<open>(dx, dy)\<close>.\<close>

definition projectT :: "real \<Rightarrow> real \<Rightarrow> real \<Rightarrow> real \<Rightarrow> real \<Rightarrow> real \<Rightarrow> real" where
  "projectT sx sy dx dy qx qy =
     (let lengthSquared = dx * dx + dy * dy
      in if lengthSquared = 0 then 0
         else max 0 (min 1 (((qx - sx) * dx + (qy - sy) * dy) / lengthSquared)))"

definition intervalsCallback :: "World \<Rightarrow> real \<Rightarrow> real \<Rightarrow> real \<Rightarrow> real \<Rightarrow> geometry \<Rightarrow> bool
    \<Rightarrow> ((real \<times> real) list, bool) prog" where
  "intervalsCallback w sx sy ex ey g selected intervals =
     (case g of
        GLine line \<Rightarrow>
          (let ax = v_x (vertexObj w (l_v0 (lineObj w line)));
               ay = v_y (vertexObj w (l_v0 (lineObj w line)));
               bx = v_x (vertexObj w (l_v1 (lineObj w line)));
               by' = v_y (vertexObj w (l_v1 (lineObj w line)))
           in if orientation sx sy ex ey ax ay \<noteq> 0 then (Inr True, intervals)
              else if orientation sx sy ex ey bx by' \<noteq> 0 then (Inr True, intervals)
              else
                (let ta = projectT sx sy (ex - sx) (ey - sy) ax ay;
                     tb = projectT sx sy (ex - sx) (ey - sy) bx by';
                     s = min ta tb;
                     e = max ta tb
                 in if e - s \<le> EPSILON then (Inr True, intervals)
                    else if e \<le> 0 \<or> s \<ge> 1 then (Inr True, intervals)
                    else (Inr True, intervals @ [(max 0 s, min 1 e)])))
      | _ \<Rightarrow> (Inl TypeError, intervals))"

definition mergeIntervals :: "(real \<times> real) list \<Rightarrow> (real \<times> real) list" where
  "mergeIntervals intervals =
     foldl (\<lambda>merged interval.
        if merged = [] \<or> fst interval > snd (last merged) + EPSILON
        then merged @ [interval]
        else butlast merged @ [(fst (last merged), max (snd (last merged)) (snd interval))])
       [] (sort_key fst intervals)"

definition gapsOf :: "(real \<times> real) list \<Rightarrow> (real \<times> real) list" where
  "gapsOf merged =
     (let (gaps, cursor) =
            foldl (\<lambda>(gaps, cursor) (s, e).
               ((if s > cursor + EPSILON then gaps @ [(cursor, s)] else gaps), max cursor e))
              ([], 0) merged
      in if cursor < 1 - EPSILON then gaps @ [(cursor, 1)] else gaps)"

text \<open>One round of the loop over the gaps; its state is the map and \<open>created\<close>.\<close>

definition createGapLine_join :: "ref \<Rightarrow> ref \<Rightarrow> ref list \<Rightarrow> (DoomMap, ref list) prog" where
  "createGapLine_join vA vB created m =
     (let a = vertexObj (world m) vA; b = vertexObj (world m) vB
      in if v_x a = v_x b \<and> v_y a = v_y b then (Inr created, m)
         else if map_of (lineMap (world m)) (createLineKey (v_x a) (v_y a) (v_x b) (v_y b))
                   \<noteq> None
         then (Inr created, m)
         else bind (liftW (Line_new vA vB))
                (\<lambda>line. bind (priv_addLine line) (\<lambda>u. ret (created @ [line]))) m)"

definition createGapLine :: "ref \<Rightarrow> ref \<Rightarrow> real \<times> real \<Rightarrow> ref list \<Rightarrow> (DoomMap, ref list) prog" where
  "createGapLine vStart vEnd gap created m =
     (let s = fst gap; e = snd gap
      in if e - s \<le> EPSILON then (Inr created, m)
         else
           (let sx = v_x (vertexObj (world m) vStart); sy = v_y (vertexObj (world m) vStart);
                dx = v_x (vertexObj (world m) vEnd) - sx;
                dy = v_y (vertexObj (world m) vEnd) - sy
            in bind (addVertex (Math_round (sx + s * dx)) (Math_round (sy + s * dy)) True)
                 (\<lambda>vA. bind (addVertex (Math_round (sx + e * dx)) (Math_round (sy + e * dy))
                               True)
                    (\<lambda>vB. createGapLine_join vA vB created))
                 m))"

fun createGapLines :: "ref \<Rightarrow> ref \<Rightarrow> (real \<times> real) list \<Rightarrow> ref list \<Rightarrow> (DoomMap, ref list) prog" where
  "createGapLines vStart vEnd [] created = ret created"
| "createGapLines vStart vEnd (gap # gaps) created =
     bind (createGapLine vStart vEnd gap created) (createGapLines vStart vEnd gaps)"

definition otherOf :: "World \<Rightarrow> ref \<Rightarrow> ref \<Rightarrow> ref" where
  "otherOf w line vertex =
     (if l_v0 (lineObj w line) = vertex then l_v1 (lineObj w line) else l_v0 (lineObj w line))"

text \<open>
  \<open>tryMergeAtVertex(line, sharedVertex)\<close>, as the loop over the copy of
  \<open>sharedVertex.lines\<close> taken at the call.  The merged line is a clone of the candidate
  with \<open>v0\<close> replaced by \<open>a\<close> when the candidate starts at the shared vertex, and with
  \<open>v1\<close> replaced by \<open>c\<close> when it ends there.
\<close>

fun tryMergeCandidates :: "ref \<Rightarrow> ref \<Rightarrow> ref list \<Rightarrow> (DoomMap, ref) prog" where
  "tryMergeCandidates line sharedVertex [] m = (Inr line, m)"
| "tryMergeCandidates line sharedVertex (candidate # rest) m =
     (if candidate = line then tryMergeCandidates line sharedVertex rest m
      else
        (let w = world m;
             a = vertexObj w (otherOf w line sharedVertex);
             b = vertexObj w sharedVertex;
             c = vertexObj w (otherOf w candidate sharedVertex)
         in if orientation (v_x a) (v_y a) (v_x b) (v_y b) (v_x c) (v_y c) \<noteq> 0
            then tryMergeCandidates line sharedVertex rest m
            else
              (case wouldSegmentCrossAny w (v_x a) (v_y a) (v_x c) (v_y c)
                      (min (v_x a) (v_x c), min (v_y a) (v_y c))
                      (max (v_x a) (v_x c), max (v_y a) (v_y c))
                      (Some [line, candidate]) of
                 Inl e \<Rightarrow> (Inl e, m)
               | Inr (Some crossing) \<Rightarrow> tryMergeCandidates line sharedVertex rest m
               | Inr None \<Rightarrow>
                   (case map_of (lineMap w) (createLineKey (v_x a) (v_y a) (v_x c) (v_y c)) of
                      Some existing \<Rightarrow>
                        bind (priv_removeLine line)
                          (\<lambda>u. bind (priv_removeLine candidate) (\<lambda>u. ret existing)) m
                    | None \<Rightarrow>
                        bind (liftW (cloneLine candidate
                                 (if l_v0 (lineObj w candidate) = sharedVertex
                                  then Some (otherOf w line sharedVertex) else None)
                                 (if l_v1 (lineObj w candidate) = sharedVertex
                                  then Some (otherOf w candidate sharedVertex) else None)))
                          (\<lambda>merged. bind (priv_addLine merged)
                             (\<lambda>u. bind (priv_removeLine line)
                                (\<lambda>u. bind (priv_removeLine candidate) (\<lambda>u. ret merged))))
                          m))))"

definition tryMergeAtVertex :: "ref \<Rightarrow> ref \<Rightarrow> (DoomMap, ref) prog" where
  "tryMergeAtVertex line sharedVertex m =
     tryMergeCandidates line sharedVertex (v_lines (vertexObj (world m) sharedVertex)) m"

text \<open>
  The loop \<open>while (changed)\<close> for one created line.  A round that merges takes at least
  one line out of the lines of the map (it adds at most one and removes two), so the loop
  makes at most one round more than the map has lines; \<open>n\<close> counts the rounds left.
\<close>

fun mergeOutward :: "nat \<Rightarrow> ref \<Rightarrow> (DoomMap, unit) prog" where
  "mergeOutward 0 line m = (Inl Diverges, m)"
| "mergeOutward (Suc n) line m =
     bind (tryMergeAtVertex line (l_v0 (lineObj (world m) line)))
       (\<lambda>m1. if m1 \<noteq> line then mergeOutward n m1
             else bind (tryMergeAtVertex line (l_v1 (lineObj (world m) line)))
                    (\<lambda>m2. if m2 \<noteq> line then mergeOutward n m2 else ret ()))
       m"

definition mergeCreated :: "ref \<Rightarrow> (DoomMap, unit) prog" where
  "mergeCreated line m =
     (if line \<notin> set (lines (world m)) then (Inr (), m)
      else mergeOutward (length (lines (world m)) + 2) line m)"

text \<open>What \<open>addLine\<close> returns: \<open>false\<close>, or the array \<open>created\<close>.\<close>

datatype addLineResult = ReturnedFalse | ReturnedLines "ref list"

text \<open>\<open>addLine(fromX, fromY, toX, toY, skipRebuild = false)\<close>.\<close>

definition addHitVertex :: "real \<times> real \<Rightarrow> (DoomMap, unit) prog" where
  "addHitVertex h = bind (addVertex (fst h) (snd h) True) (\<lambda>v. ret ())"

definition addLine_cover :: "real \<times> real \<Rightarrow> real \<times> real \<Rightarrow> bool \<Rightarrow> ref \<Rightarrow> ref
    \<Rightarrow> (DoomMap, addLineResult) prog" where
  "addLine_cover boundsMin boundsMax skipRebuild vStart vEnd m =
     (let w = world m;
          sx = v_x (vertexObj w vStart); sy = v_y (vertexObj w vStart);
          ex = v_x (vertexObj w vEnd); ey = v_y (vertexObj w vEnd)
      in bind (runLocal (iterateLines w (intervalsCallback w sx sy ex ey)
                           (Some (boundsMin, boundsMax)) False) [])
           (\<lambda>intervals.
              bind (createGapLines vStart vEnd (gapsOf (mergeIntervals intervals)) [])
                (\<lambda>created.
                   bind (forEach created mergeCreated)
                     (\<lambda>u. bind (rebuildUnless skipRebuild)
                        (\<lambda>u. ret (if created = [] then ReturnedFalse
                                   else ReturnedLines created)))))
           m)"

definition addLine_between :: "real \<Rightarrow> real \<Rightarrow> real \<Rightarrow> real \<Rightarrow> bool \<Rightarrow> ref \<Rightarrow> ref
    \<Rightarrow> (DoomMap, addLineResult) prog" where
  "addLine_between x0 y0 x1 y1 skipRebuild vStart vEnd m =
     (let w = world m;
          boundsMin = (min x0 x1, min y0 y1); boundsMax = (max x0 x1, max y0 y1)
      in if map_of (lineMap w)
              (createLineKey (v_x (vertexObj w vStart)) (v_y (vertexObj w vStart))
                 (v_x (vertexObj w vEnd)) (v_y (vertexObj w vEnd))) \<noteq> None
         then bind (rebuildUnless skipRebuild) (\<lambda>u. ret ReturnedFalse) m
         else
           bind (runLocal (iterateLines w (hitsCallback w x0 y0 x1 y1)
                             (Some (boundsMin, boundsMax)) False) ((0, 0, 0), 0))
             (\<lambda>st. bind (forEach (replicate (snd st) (fst (fst st), fst (snd (fst st))))
                            addHitVertex)
                (\<lambda>u. addLine_cover boundsMin boundsMax skipRebuild vStart vEnd))
             m)"

definition addLine :: "real \<Rightarrow> real \<Rightarrow> real \<Rightarrow> real \<Rightarrow> bool \<Rightarrow> (DoomMap, addLineResult) prog" where
  "addLine fromX fromY toX toY skipRebuild m =
     (let x0 = Math_round fromX; y0 = Math_round fromY;
          x1 = Math_round toX; y1 = Math_round toY
      in if x0 = x1 \<and> y0 = y1 then (Inr ReturnedFalse, m)
         else
           bind (addVertex x0 y0 True)
             (\<lambda>vStart. bind (addVertex x1 y1 True)
                (\<lambda>vEnd. addLine_between x0 y0 x1 y1 skipRebuild vStart vEnd))
             m)"

section \<open>Serialization\<close>

text \<open>The plain data objects that \<open>serialize\<close> builds and \<open>deserialize\<close> reads.\<close>

record VertexData =
  vd_x :: real
  vd_y :: real

record SideData =
  sd_textureUpper :: string
  sd_textureMiddle :: string
  sd_textureLower :: string
  sd_xOffset :: real
  sd_yOffset :: real

record LineData =
  ld_v0 :: VertexData
  ld_v1 :: VertexData
  ld_front :: SideData
  ld_back :: SideData
  ld_flags :: Flags

record SectorData =
  sc_properties :: Properties
  sc_lines :: "LineDesc list"

record ThingData =
  td_x :: real
  td_y :: real
  td_z :: real
  td_typeId :: real
  td_angle :: real

record MapData =
  md_vertices :: "VertexData list"
  md_lines :: "LineData list"
  md_sectors :: "SectorData list"
  md_things :: "ThingData list"
  md_metadata :: Metadata

definition Vertex_serialize :: "World \<Rightarrow> ref \<Rightarrow> VertexData" where
  "Vertex_serialize w v = \<lparr>vd_x = v_x (vertexObj w v), vd_y = v_y (vertexObj w v)\<rparr>"

definition Side_serialize :: "Side \<Rightarrow> SideData" where
  "Side_serialize sd =
     \<lparr>sd_textureUpper = textureUpper sd, sd_textureMiddle = textureMiddle sd,
      sd_textureLower = textureLower sd, sd_xOffset = xOffset sd, sd_yOffset = yOffset sd\<rparr>"

definition Side_deserialize :: "Side \<Rightarrow> SideData \<Rightarrow> Side" where
  "Side_deserialize this d =
     this\<lparr>textureUpper := sd_textureUpper d, textureMiddle := sd_textureMiddle d,
          textureLower := sd_textureLower d, xOffset := sd_xOffset d,
          yOffset := sd_yOffset d\<rparr>"

definition Line_serialize :: "World \<Rightarrow> ref \<Rightarrow> LineData" where
  "Line_serialize w l =
     \<lparr>ld_v0 = Vertex_serialize w (l_v0 (lineObj w l)),
      ld_v1 = Vertex_serialize w (l_v1 (lineObj w l)),
      ld_front = Side_serialize (l_front (lineObj w l)),
      ld_back = Side_serialize (l_back (lineObj w l)),
      ld_flags = l_flags (lineObj w l)\<rparr>"

definition readStyle :: "LineData \<Rightarrow> Line \<Rightarrow> Line" where
  "readStyle d line =
     line\<lparr>l_front := Side_deserialize (l_front line) (ld_front d),
          l_back := Side_deserialize (l_back line) (ld_back d),
          l_flags := Flags_copy (l_flags line) (ld_flags d)\<rparr>"

definition Line_deserialize :: "LineData \<Rightarrow> (key \<times> ref) list \<Rightarrow> (World, ref) prog" where
  "Line_deserialize d vmap w =
     (case map_of vmap (createVertexKey (vd_x (ld_v0 d)) (vd_y (ld_v0 d))) of
        None \<Rightarrow> (Inl (Error ''Missing vertex''), w)
      | Some v0 \<Rightarrow>
          (case map_of vmap (createVertexKey (vd_x (ld_v1 d)) (vd_y (ld_v1 d))) of
             None \<Rightarrow> (Inl (Error ''Missing vertex''), w)
           | Some v1 \<Rightarrow>
               bind (Line_new v0 v1)
                 (\<lambda>line. bind (modify (updLine line (readStyle d))) (\<lambda>u. ret line)) w))"

definition Sector_serialize :: "World \<Rightarrow> ref \<Rightarrow> SectorData" where
  "Sector_serialize w sc =
     \<lparr>sc_properties = properties (sectorObj w sc),
      sc_lines = map (\<lambda>line.
          \<lparr>d_x0 = v_x (vertexObj w (l_v0 (lineObj w line))),
           d_y0 = v_y (vertexObj w (l_v0 (lineObj w line))),
           d_x1 = v_x (vertexObj w (l_v1 (lineObj w line))),
           d_y1 = v_y (vertexObj w (l_v1 (lineObj w line))),
           d_front = (frontSector w line = Some sc)\<rparr>) (s_lines (sectorObj w sc))\<rparr>"

definition Sector_deserialize :: "SectorData \<Rightarrow> (key \<times> ref) list \<Rightarrow> (World, ref) prog" where
  "Sector_deserialize d lmap =
     bind (Sector_new lmap (sc_lines d))
       (\<lambda>sc. bind (modify (updSector sc (\<lambda>s. s\<lparr>properties := sc_properties d\<rparr>)))
          (\<lambda>u. ret sc))"

definition Thing_serialize :: "World \<Rightarrow> ref \<Rightarrow> ThingData" where
  "Thing_serialize w t =
     \<lparr>td_x = t_x (thingObj w t), td_y = t_y (thingObj w t), td_z = z (thingObj w t),
      td_typeId = typeId (thingObj w t), td_angle = angle (thingObj w t)\<rparr>"

definition serialize :: "DoomMap \<Rightarrow> MapData" where
  "serialize m =
     (let w = world m
      in \<lparr>md_vertices = map (Vertex_serialize w) (vertices w),
          md_lines = map (Line_serialize w) (lines w),
          md_sectors = map (Sector_serialize w) (sectors w),
          md_things = map (Thing_serialize w) (things w),
          md_metadata = metadata w\<rparr>)"

text \<open>
  \<open>deserialize(data)\<close> empties the arrays, the two key maps and the grid, and replaces
  the metadata; the modified lines, the selection and the history stay as they are.
\<close>

definition resetMap :: "Metadata \<Rightarrow> World \<Rightarrow> World" where
  "resetMap md w =
     w\<lparr>vertices := [], vertexMap := [], lines := [], lineMap := [], sectors := [],
       things := [], spatialGrid := [], metadata := md\<rparr>"

definition deserializeVertex :: "VertexData \<Rightarrow> (DoomMap, unit) prog" where
  "deserializeVertex vd = bind (liftW (Vertex_new (vd_x vd) (vd_y vd))) priv_addVertex"

definition deserializeLine :: "LineData \<Rightarrow> (DoomMap, unit) prog" where
  "deserializeLine ld m =
     bind (liftW (Line_deserialize ld (vertexMap (world m)))) priv_addLine m"

definition deserializeSector :: "SectorData \<Rightarrow> (DoomMap, unit) prog" where
  "deserializeSector sd m =
     liftW (bind (Sector_deserialize sd (lineMap (world m))) priv_addSector) m"

definition deserializeThing :: "ThingData \<Rightarrow> (DoomMap, unit) prog" where
  "deserializeThing td =
     bind (liftW (Thing_new (td_x td) (td_y td) (td_z td) (td_typeId td) (td_angle td)))
       priv_addThing"

definition deserialize :: "MapData \<Rightarrow> (DoomMap, unit) prog" where
  "deserialize d =
     bind (liftW (modify (resetMap (md_metadata d))))
       (\<lambda>u. bind (forEach (md_vertices d) deserializeVertex)
          (\<lambda>u. bind (forEach (md_lines d) deserializeLine)
             (\<lambda>u. bind (forEach (md_sectors d) deserializeSector)
                (\<lambda>u. bind (forEach (md_things d) deserializeThing)
                   (\<lambda>u. liftW rebuildSectors)))))"

section \<open>Property setters\<close>

text \<open>
  The values a setter can be given: a number, a boolean, a string, or anything else
  (\<open>JObject\<close>: an object, \<open>null\<close>, \<open>undefined\<close>, a function), which no setter
  accepts.
\<close>

datatype jsvalue = JNumber real | JBoolean bool | JString string | JObject

fun typeof :: "jsvalue \<Rightarrow> string" where
  "typeof (JNumber x) = ''number''"
| "typeof (JBoolean b) = ''boolean''"
| "typeof (JString s) = ''string''"
| "typeof JObject = ''object''"

text \<open>
  The three tests of every setter: the property exists, the value has the type of the
  current value, and the value is a number, a boolean or a string.  The current value is
  \<open>None\<close> for a name that is not a field of the object.  (A method name such as
  \<open>copy\<close> passes the \<open>in\<close> test of the source, and fails the second or third test,
  being a function: the setter throws the same error.)
\<close>

definition validProperty :: "jsvalue option \<Rightarrow> jsvalue \<Rightarrow> bool" where
  "validProperty cur v =
     (case cur of
        None \<Rightarrow> False
      | Some c \<Rightarrow> typeof v = typeof c
                  \<and> (typeof v = ''number'' \<or> typeof v = ''boolean'' \<or> typeof v = ''string''))"

definition Properties_get :: "Properties \<Rightarrow> string \<Rightarrow> jsvalue option" where
  "Properties_get p prop =
     (if prop = ''floorHeight'' then Some (JNumber (floorHeight p))
      else if prop = ''ceilingHeight'' then Some (JNumber (ceilingHeight p))
      else if prop = ''floorTexture'' then Some (JString (floorTexture p))
      else if prop = ''ceilingTexture'' then Some (JString (ceilingTexture p))
      else if prop = ''lightLevel'' then Some (JNumber (lightLevel p))
      else if prop = ''tag'' then Some (JNumber (tag p))
      else if prop = ''special'' then Some (JNumber (special p))
      else None)"

text \<open>An assignment \<open>object[property] = value\<close> of a setter's closure: the value has passed
  the tests, so it has the type of the field.\<close>

definition Properties_set :: "string \<Rightarrow> jsvalue \<Rightarrow> Properties \<Rightarrow> Properties" where
  "Properties_set prop v p =
     (case v of
        JNumber x \<Rightarrow>
          (if prop = ''floorHeight'' then p\<lparr>floorHeight := x\<rparr>
           else if prop = ''ceilingHeight'' then p\<lparr>ceilingHeight := x\<rparr>
           else if prop = ''lightLevel'' then p\<lparr>lightLevel := x\<rparr>
           else if prop = ''tag'' then p\<lparr>tag := x\<rparr>
           else if prop = ''special'' then p\<lparr>special := x\<rparr>
           else p)
      | JString t \<Rightarrow>
          (if prop = ''floorTexture'' then p\<lparr>floorTexture := t\<rparr>
           else if prop = ''ceilingTexture'' then p\<lparr>ceilingTexture := t\<rparr>
           else p)
      | _ \<Rightarrow> p)"









definition assignSectorProperty :: "ref \<Rightarrow> string \<Rightarrow> jsvalue \<Rightarrow> (World, unit) prog" where
  "assignSectorProperty sc prop v =
     modify (updSector sc (\<lambda>s. s\<lparr>properties := Properties_set prop v (properties s)\<rparr>))"




definition setSectorProperty :: "ref \<Rightarrow> string \<Rightarrow> jsvalue \<Rightarrow> (DoomMap, unit) prog" where
  "setSectorProperty sc prop v m =
     (case Properties_get (properties (sectorObj (world m) sc)) prop of
        None \<Rightarrow> (Inl (Error ''Invalid sector property''), m)
      | Some old \<Rightarrow>
          if \<not> validProperty (Some old) v then (Inl (Error ''Invalid sector property''), m)
          else if old = v then (Inr (), m)
          else history_do (assignSectorProperty sc prop v) (assignSectorProperty sc prop old)
                 (Some (TSector sc)) (Some prop) True m)"


section \<open>Sequences of edits\<close>






text \<open>
  The map \<open>w'\<close> has the arrays, key maps, selection, metadata, object attributes and
  grid cells of \<open>w\<close>, and the objects created before \<open>w\<close> are as in \<open>w\<close>; new
  objects may have been created since.
\<close>

definition restored :: "World \<Rightarrow> World \<Rightarrow> bool" where
  "restored w w' =
     (metadata w' = metadata w \<and> vertices w' = vertices w \<and> vertexMap w' = vertexMap w \<and>
      lines w' = lines w \<and> lineMap w' = lineMap w \<and> modifiedLines w' = modifiedLines w \<and>
      sectors w' = sectors w \<and> things w' = things w \<and> selection w' = selection w \<and>
      vertexObj w' = vertexObj w \<and> lineObj w' = lineObj w \<and> sectorObj w' = sectorObj w \<and>
      (\<forall>cx cy. cellAt w' cx cy = cellAt w cx cy) \<and>
      (\<forall>r. r < nextRef w \<longrightarrow> thingObj w' r = thingObj w r) \<and>
      nextRef w \<le> nextRef w')"


section \<open>What a rebuild leaves on the lines\<close>

text \<open>
  The lines of the map and, for every line object, the \<open>sectorOld\<close> reference of its two
  sides; and the programs that leave both as they are, whatever their outcome.
\<close>

definition oldRefs :: "World \<Rightarrow> ref list \<times> (ref \<Rightarrow> ref option \<times> ref option)" where
  "oldRefs w =
     (lines w, \<lambda>l. (sectorOld (l_front (lineObj w l)), sectorOld (l_back (lineObj w l))))"

definition keepsOld :: "(World, 'a) prog \<Rightarrow> bool" where
  "keepsOld p = (\<forall>w. oldRefs (snd (p w)) = oldRefs w)"

section \<open>Scenarios\<close>

text \<open>
  The box of the first scenario of the specification, one call after the other from the
  empty map; each state is the state left by the call before, whatever its outcome.
\<close>

definition box1 :: DoomMap where "box1 = exec (addLine 0 0 100 0 False) DoomMap_new"
definition box2 :: DoomMap where "box2 = exec (addLine 100 0 100 100 False) box1"
definition box3 :: DoomMap where "box3 = exec (addLine 100 100 0 100 False) box2"
definition box4 :: DoomMap where "box4 = exec (addLine 0 100 0 0 False) box3"

text \<open>
  Three vertices in a row, the middle one removed, three undos, the first vertex removed,
  three redos.
\<close>

definition row1 :: DoomMap where "row1 = exec (addVertex 0 0 False) DoomMap_new"
definition row2 :: DoomMap where "row2 = exec (addVertex 1 0 False) row1"
definition row3 :: DoomMap where "row3 = exec (addVertex 2 0 False) row2"
definition row4 :: DoomMap where "row4 = exec (removeVertex 1 0 False) row3"
definition row5 :: DoomMap where "row5 = exec history_undo row4"
definition row6 :: DoomMap where "row6 = exec history_undo row5"
definition row7 :: DoomMap where "row7 = exec history_undo row6"
definition row8 :: DoomMap where "row8 = exec (removeVertex 0 0 False) row7"
definition row9 :: DoomMap where "row9 = exec history_redo row8"
definition row10 :: DoomMap where "row10 = exec history_redo row9"
definition row11 :: DoomMap where "row11 = exec history_redo row10"

text \<open>
  The map that the first scenario describes, written out: the vertices \<open>0 .. 3\<close>, the
  lines \<open>4 .. 7\<close> around the box, and the sector \<open>8\<close> on their front sides.
\<close>

definition boxVertex :: "real \<Rightarrow> real \<Rightarrow> ref list \<Rightarrow> Vertex" where
  "boxVertex x y ls = \<lparr>v_bounds = pointBounds x y, v_lines = ls, v_x = x, v_y = y\<rparr>"

definition boxLine :: "ref \<Rightarrow> ref \<Rightarrow> Bounds \<Rightarrow> Line" where
  "boxLine a b bnds =
     \<lparr>l_bounds = bnds, l_v0 = a, l_v1 = b, l_front = Side_new\<lparr>sector := Some 8\<rparr>,
      l_back = Side_new, l_flags = Flags_new\<rparr>"

definition boxWorld :: World where
  "boxWorld =
     World_new
       \<lparr>vertices := [0, 1, 2, 3],
        vertexMap := [(VertexKey 0 0, 0), (VertexKey 100 0, 1), (VertexKey 100 100, 2),
                      (VertexKey 0 100, 3)],
        lines := [4, 5, 6, 7],
        lineMap := [(LineKey 0 0 100 0, 4), (LineKey 100 0 100 100, 5),
                    (LineKey 0 100 100 100, 6), (LineKey 0 0 0 100, 7)],
        sectors := [8],
        spatialGrid := [(0, [(0, [GVertex 0, GVertex 1, GVertex 2, GVertex 3, GLine 4,
                                   GLine 5, GLine 6, GLine 7, GSector 8])])],
        vertexObj := (vertexObj World_new)
          (0 := boxVertex 0 0 [4, 7], 1 := boxVertex 100 0 [4, 5],
           2 := boxVertex 100 100 [5, 6], 3 := boxVertex 0 100 [6, 7]),
        lineObj := (lineObj World_new)
          (4 := boxLine 0 1 \<lparr>min_x = 0, min_y = 0, max_x = 100, max_y = 0\<rparr>,
           5 := boxLine 1 2 \<lparr>min_x = 100, min_y = 0, max_x = 100, max_y = 100\<rparr>,
           6 := boxLine 2 3 \<lparr>min_x = 0, min_y = 100, max_x = 100, max_y = 100\<rparr>,
           7 := boxLine 3 0 \<lparr>min_x = 0, min_y = 0, max_x = 0, max_y = 100\<rparr>),
        sectorObj := (sectorObj World_new)
          (8 := \<lparr>s_bounds = Some \<lparr>min_x = 0, min_y = 0, max_x = 100, max_y = 100\<rparr>,
                 s_lines = [4, 5, 6, 7], flatXY = [0, 0, 100, 0, 100, 100, 0, 100, 0, 0],
                 s_map = True, parent = None, children = [],
                 properties = Properties_new\<rparr>),
        nextRef := 9\<rparr>"

definition boxMap :: DoomMap where
  "boxMap = \<lparr>history = History_new, world = boxWorld\<rparr>"

text \<open>
  A map with one line, from \<open>(0, 0)\<close> to \<open>(200, 200)\<close>, as \<open>addLine\<close> builds it
  before it looks for lines to merge: the end points are added with \<open>addVertex(x, y, true)\<close>
  and the line is registered with \<open>#addLine(new Line(vA, vB))\<close>.  The line lies in four
  grid cells, its end points in one each.
\<close>

definition registerLineBetween :: "ref \<Rightarrow> ref \<Rightarrow> (DoomMap, unit) prog" where
  "registerLineBetween vA vB = bind (liftW (Line_new vA vB)) priv_addLine"

definition cross0 :: DoomMap where "cross0 = exec (addVertex 0 0 True) DoomMap_new"
definition cross1 :: DoomMap where "cross1 = exec (addVertex 200 200 True) cross0"
definition crossMap :: DoomMap where "crossMap = exec (registerLineBetween 0 1) cross1"

text \<open>Three things added one after the other to the empty map.\<close>

definition things1 :: DoomMap where "things1 = exec (addThing 10 20 0 1 None) DoomMap_new"
definition things2 :: DoomMap where "things2 = exec (addThing 300 40 0 1 None) things1"
definition things3 :: DoomMap where "things3 = exec (addThing 50 60 0 1 None) things2"







section \<open>Frame and list lemmas\<close>

text \<open>The definitions that the evaluation of a run on a concrete map unfolds.\<close>

lemmas core_defs = bind_def ret_def throw_def modify_def liftW_def outcome_def exec_def Let_def
  runLocal_def

lemmas history_defs = history_do_def History_do_def History_replace_def history_undo_def
  history_redo_def History_undo_def History_redo_def History_new_def

lemmas grid_defs = addToSpatialGrid_def removeFromSpatialGrid_def boundsOf_def cellRange_def
  Math_floor_def SPATIAL_GRID_CELL_SIZE_def pointBounds_def set_add_def set_delete_def
  splice1_def

lemmas vertex_defs = addVertex_def Math_round_def createVertexKey_def createLineKey_def
  Vertex_new_def priv_addVertex_def addVertex_do_def addVertex_undo_def splitLinesAt_def
  linesToSplit_def rebuildUnless_def removeVertex_def priv_removeVertex_def
  removeVertex_do_def removeVertex_undo_def

lemmas iterate_defs = iterateLines_def iterateSectors_def iterateGeometry_def gridVisit_def
  cellsOf_def Geometry_isInside_def

lemmas line_defs = Line_new_def Vertex_addLine_def Side_new_def Flags_new_def priv_addLine_def
  lineKeyOf_def addLine_do_def Line_deserialize_def readStyle_def updLine_def
  Side_deserialize_def Flags_copy_def

lemmas sector_defs = Sector_new_def Sector_attach_def Sector_deserialize_def updSector_def
  priv_addSector_def Sector_addToMap_def addToMap_search_def addToMap_findParent_def
  addToMap_adopt_def addToMap_registerChild_def addToMap_patchLines_def
  addToMap_patchSides_def registerSector_def frontSector_def backSector_def
  setFrontSector_def setBackSector_def Properties_new_def boundsWithin_def

lemmas addLine_defs = addLine_def addLine_between_def addLine_cover_def hitsCallback_def
  intervalsCallback_def

lemmas deserialize_defs = deserialize_def deserializeVertex_def deserializeLine_def
  deserializeSector_def deserializeThing_def resetMap_def

lemma upto_0_1 [simp]: "[0..1::int] = [0, 1]"
  by (simp add: upto_rec1)

lemmas cross_defs = wouldSegmentCrossAny_def crossCallback_def segmentsProperlyIntersect_def
  orientation_def collinearOverlapMoreThanEndpoint_def onSegment_def EPSILON_def

text \<open>A rebuild on lines that close no loop compares an angle with itself only.\<close>

lemma angleToCcw_same [simp]: "angleToCcw a a = 0"
  by (simp add: angleToCcw_def js_rem_def Let_def)


lemmas serialize_defs = serialize_def Vertex_serialize_def Line_serialize_def
  Side_serialize_def Sector_serialize_def Thing_serialize_def


lemma addToSpatialGrid_frame [simp]:
  "things (addToSpatialGrid g w) = things w"
  "vertices (addToSpatialGrid g w) = vertices w"
  "lines (addToSpatialGrid g w) = lines w"
  "sectors (addToSpatialGrid g w) = sectors w"
  "vertexMap (addToSpatialGrid g w) = vertexMap w"
  "lineMap (addToSpatialGrid g w) = lineMap w"
  "modifiedLines (addToSpatialGrid g w) = modifiedLines w"
  "selection (addToSpatialGrid g w) = selection w"
  "metadata (addToSpatialGrid g w) = metadata w"
  "vertexObj (addToSpatialGrid g w) = vertexObj w"
  "lineObj (addToSpatialGrid g w) = lineObj w"
  "sectorObj (addToSpatialGrid g w) = sectorObj w"
  "thingObj (addToSpatialGrid g w) = thingObj w"
  "nextRef (addToSpatialGrid g w) = nextRef w"
  by (simp_all add: addToSpatialGrid_def split: option.splits)

lemma removeFromSpatialGrid_frame [simp]:
  "things (removeFromSpatialGrid g w) = things w"
  "vertices (removeFromSpatialGrid g w) = vertices w"
  "lines (removeFromSpatialGrid g w) = lines w"
  "sectors (removeFromSpatialGrid g w) = sectors w"
  "vertexMap (removeFromSpatialGrid g w) = vertexMap w"
  "lineMap (removeFromSpatialGrid g w) = lineMap w"
  "modifiedLines (removeFromSpatialGrid g w) = modifiedLines w"
  "selection (removeFromSpatialGrid g w) = selection w"
  "metadata (removeFromSpatialGrid g w) = metadata w"
  "vertexObj (removeFromSpatialGrid g w) = vertexObj w"
  "lineObj (removeFromSpatialGrid g w) = lineObj w"
  "sectorObj (removeFromSpatialGrid g w) = sectorObj w"
  "thingObj (removeFromSpatialGrid g w) = thingObj w"
  "nextRef (removeFromSpatialGrid g w) = nextRef w"
  by (simp_all add: removeFromSpatialGrid_def split: option.splits)

lemma indexOf_None_iff: "indexOf x xs = None \<longleftrightarrow> x \<notin> set xs"
  by (induction xs) auto

lemma indexOf_notin [simp]: "x \<notin> set xs \<Longrightarrow> indexOf x xs = None"
  by (simp add: indexOf_None_iff)

lemma indexOf_append_fresh: "x \<notin> set xs \<Longrightarrow> indexOf x (xs @ [x]) = Some (length xs)"
  by (induction xs) auto

lemma butlast_singleton: "length xs = Suc 0 \<Longrightarrow> butlast xs = []"
  by (cases xs) auto

lemma history_do_unfold:
  "history_do doF undoF tgt par coal m =
     (fst (doF (world m)),
      \<lparr>history =
         (if History_replace (history m) tgt par
          then (history m)\<lparr>stack := butlast (stack (history m)) @
                 [\<lparr>doFunc = doF, undoFunc = undoF, target = tgt, parameter = par,
                   coalescing = coal\<rparr>]\<rparr>
          else (history m)\<lparr>stack := stack (history m) @
                 [\<lparr>doFunc = doF, undoFunc = undoF, target = tgt, parameter = par,
                   coalescing = coal\<rparr>], redoStack := []\<rparr>),
       world = snd (doF (world m))\<rparr>)"
  by (simp add: history_do_def History_do_def Let_def split: prod.splits)

section \<open>Properties of the history\<close>

text \<open>
  C5.  \<open>do\<close> replaces the top of the undo stack and leaves the redo stack alone when the
  top is coalescing with the same target and parameter; otherwise it pushes and clears the
  redo stack.  In both cases the resulting state and outcome are those of one run of
  \<open>doFunc\<close> on the state before the call.
\<close>

theorem History_do_spec:
  "History_do doF undoF tgt par coal (h, w) = (r, (h', w')) \<Longrightarrow>
   (let action = \<lparr>doFunc = doF, undoFunc = undoF, target = tgt, parameter = par,
                   coalescing = coal\<rparr>;
        top_matches = (stack h \<noteq> [] \<and> coalescing (last (stack h))
                       \<and> target (last (stack h)) = tgt \<and> parameter (last (stack h)) = par)
    in (top_matches \<longrightarrow> stack h' = butlast (stack h) @ [action] \<and> redoStack h' = redoStack h)
     \<and> (\<not> top_matches \<longrightarrow> stack h' = stack h @ [action] \<and> redoStack h' = [])
     \<and> (r, w') = doF w)"
  by (auto simp: History_do_def History_replace_def Let_def split: prod.splits if_splits)

theorem History_do_spec_witness:
  "(let a0 = \<lparr>doFunc = modify Suc, undoFunc = modify (\<lambda>n. n - 1), target = Some (1::nat),
               parameter = Some ''p'', coalescing = True\<rparr>;
        h = \<lparr>stack = [a0, a0], redoStack = [a0]\<rparr>;
        res = History_do (modify (\<lambda>n. n + 2)) (modify (\<lambda>n. n - 2)) (Some (1::nat))
                (Some ''p'') True (h, 5::nat);
        action = \<lparr>doFunc = modify (\<lambda>n. n + 2), undoFunc = modify (\<lambda>n. n - 2),
                   target = Some (1::nat), parameter = Some ''p'', coalescing = True\<rparr>
    in stack (fst (snd res)) = [a0, action] \<and> redoStack (fst (snd res)) = [a0]
     \<and> fst res = Inr () \<and> snd (snd res) = 7)"
  using History_do_spec
    [of "modify (\<lambda>n. n + 2)" "modify (\<lambda>n. n - 2)" "Some (1::nat)" "Some ''p''" True
        "\<lparr>stack = [\<lparr>doFunc = modify Suc, undoFunc = modify (\<lambda>n. n - 1),
                     target = Some (1::nat), parameter = Some ''p'', coalescing = True\<rparr>,
                    \<lparr>doFunc = modify Suc, undoFunc = modify (\<lambda>n. n - 1),
                     target = Some (1::nat), parameter = Some ''p'', coalescing = True\<rparr>],
          redoStack = [\<lparr>doFunc = modify Suc, undoFunc = modify (\<lambda>n. n - 1),
                     target = Some (1::nat), parameter = Some ''p'', coalescing = True\<rparr>]\<rparr>"
        "5::nat" "Inr ()" _ "7::nat", OF refl [THEN ssubst [where P = "\<lambda>x. x = _"]]]
  by (simp add: Let_def History_do_def History_replace_def modify_def)

section \<open>Things\<close>

text \<open>The cells of the grid after a thing, whose bounds are a point, is added or removed.\<close>

lemma cellRange_point [simp]: "cellRange x x = [Math_floor (x / SPATIAL_GRID_CELL_SIZE)]"
  by (simp add: cellRange_def)

lemma cellAt_add_point:
  assumes "boundsOf w g = Some (pointBounds x y)"
  shows "cellAt (addToSpatialGrid g w) cx cy =
     (if cx = Math_floor (x / SPATIAL_GRID_CELL_SIZE) \<and> cy = Math_floor (y / SPATIAL_GRID_CELL_SIZE)
      then set_add g (cellAt w cx cy) else cellAt w cx cy)"
  using assms
  by (auto simp add: addToSpatialGrid_def pointBounds_def cellAt_def Let_def update_conv'
      split: option.splits)

lemma cellAt_remove_point:
  assumes "boundsOf w g = Some (pointBounds x y)"
  shows "cellAt (removeFromSpatialGrid g w) cx cy =
     (if cx = Math_floor (x / SPATIAL_GRID_CELL_SIZE) \<and> cy = Math_floor (y / SPATIAL_GRID_CELL_SIZE)
      then set_delete g (cellAt w cx cy) else cellAt w cx cy)"
proof -
  let ?c = "Math_floor (x / SPATIAL_GRID_CELL_SIZE)"
  let ?d = "Math_floor (y / SPATIAL_GRID_CELL_SIZE)"
  have grid: "spatialGrid (removeFromSpatialGrid g w) = removeFromGrid g [?c] [?d] (spatialGrid w)"
    using assms by (simp add: removeFromSpatialGrid_def pointBounds_def)
  show ?thesis
  proof (cases "map_of (spatialGrid w) ?c")
    case None
    then show ?thesis by (simp add: grid cellAt_def set_delete_def)
  next
    case (Some column)
    show ?thesis
    proof (cases "map_of column ?d")
      case None
      with Some show ?thesis
        by (auto simp add: grid cellAt_def set_delete_def update_conv' delete_conv'
            split: option.splits)
    next
      case (Some cell)
      note cell = this
      show ?thesis
      proof (cases "set_delete g cell = []")
        case True
        have other: "map_of column j = (if j = ?d then Some cell else None)"
          if e: "AList.delete ?d column = []" for j
        proof -
          have "map_of (AList.delete ?d column) j = ((map_of column)(?d := None)) j"
            by (simp add: delete_conv')
          with e cell show ?thesis by (auto split: if_splits)
        qed
        from True \<open>map_of (spatialGrid w) ?c = Some column\<close> cell other show ?thesis
          by (auto simp add: grid cellAt_def update_conv' delete_conv' Let_def
              split: option.splits)
      next
        case False
        from False \<open>map_of (spatialGrid w) ?c = Some column\<close> cell show ?thesis
          by (auto simp add: grid cellAt_def update_conv' delete_conv' Let_def
              split: option.splits)
      qed
    qed
  qed
qed


text \<open>
  One call of \<open>addThing\<close>, with or without a thing to clone, on a map whose things are
  all older than the next object to be created.
\<close>

lemma addThing_fresh_any:
  assumes "nextRef (world m) \<notin> set (things (world m))"
  shows "addThing x y z0 ty clone m =
    (Inr (nextRef (world m)),
     \<lparr>history =
        (if History_replace (history m) None None
         then (history m)\<lparr>stack := butlast (stack (history m)) @
                [\<lparr>doFunc = addThing_do (nextRef (world m)),
                  undoFunc = addThing_undo (nextRef (world m)), target = None,
                  parameter = None, coalescing = True\<rparr>]\<rparr>
         else (history m)\<lparr>stack := stack (history m) @
                [\<lparr>doFunc = addThing_do (nextRef (world m)),
                  undoFunc = addThing_undo (nextRef (world m)), target = None,
                  parameter = None, coalescing = True\<rparr>], redoStack := []\<rparr>),
      world = addToSpatialGrid (GThing (nextRef (world m)))
                ((world m)\<lparr>thingObj := (thingObj (world m))
                     (nextRef (world m) :=
                        (case clone of
                           None \<Rightarrow> \<lparr>t_bounds = pointBounds x y, t_x = x, t_y = y, z = z0,
                                     typeId = ty, angle = 0\<rparr>
                         | Some c \<Rightarrow> \<lparr>t_bounds = pointBounds x y, t_x = x, t_y = y,
                                       z = z (thingObj (world m) c),
                                       typeId = typeId (thingObj (world m) c),
                                       angle = angle (thingObj (world m) c)\<rparr>)),
                   nextRef := Suc (nextRef (world m)),
                   things := things (world m) @ [nextRef (world m)]\<rparr>)\<rparr>)"
  using assms
  by (cases clone)
     (simp_all add: addThing_def bind_def liftW_def Thing_new_def Thing_clone_def ret_def
        priv_addThing_def history_do_unfold Let_def addThing_do_def)

lemma addThing_step:
  fixes m :: DoomMap and x y z0 ty :: real and clone :: "ref option"
  assumes fresh: "\<forall>t\<in>set (things (world m)). t < nextRef (world m)"
  defines "m1 \<equiv> snd (addThing x y z0 ty clone m)"
  shows
    "addThing x y z0 ty clone m = (Inr (nextRef (world m)), m1)"
    "things (world m1) = things (world m) @ [nextRef (world m)]"
    "nextRef (world m1) = Suc (nextRef (world m))"
    "stack (history m1) =
        (if History_replace (history m) None None then butlast (stack (history m))
         else stack (history m)) @
        [\<lparr>doFunc = addThing_do (nextRef (world m)), undoFunc = addThing_undo (nextRef (world m)),
          target = None, parameter = None, coalescing = True\<rparr>]"
    "thingObj (world m1) = (thingObj (world m))
        (nextRef (world m) :=
           (case clone of
              None \<Rightarrow> \<lparr>t_bounds = pointBounds x y, t_x = x, t_y = y, z = z0,
                        typeId = ty, angle = 0\<rparr>
            | Some c \<Rightarrow> \<lparr>t_bounds = pointBounds x y, t_x = x, t_y = y,
                          z = z (thingObj (world m) c),
                          typeId = typeId (thingObj (world m) c),
                          angle = angle (thingObj (world m) c)\<rparr>))"
    "cellAt (world m1) cx cy =
        (if cx = Math_floor (x / SPATIAL_GRID_CELL_SIZE) \<and>
            cy = Math_floor (y / SPATIAL_GRID_CELL_SIZE)
         then set_add (GThing (nextRef (world m))) (cellAt (world m) cx cy)
         else cellAt (world m) cx cy)"
proof -
  have f: "nextRef (world m) \<notin> set (things (world m))"
    using fresh by auto
  let ?obj = "(case clone of
              None \<Rightarrow> \<lparr>t_bounds = pointBounds x y, t_x = x, t_y = y, z = z0,
                        typeId = ty, angle = 0\<rparr>
            | Some c \<Rightarrow> \<lparr>t_bounds = pointBounds x y, t_x = x, t_y = y,
                          z = z (thingObj (world m) c),
                          typeId = typeId (thingObj (world m) c),
                          angle = angle (thingObj (world m) c)\<rparr>)"
  let ?w = "(world m)\<lparr>thingObj := (thingObj (world m)) (nextRef (world m) := ?obj),
                   nextRef := Suc (nextRef (world m)),
                   things := things (world m) @ [nextRef (world m)]\<rparr>"
  have b: "boundsOf ?w (GThing (nextRef (world m))) = Some (pointBounds x y)"
    by (cases clone) (simp_all add: boundsOf_def)
  have c: "cellAt ?w cx cy = cellAt (world m) cx cy" for cx cy
    by (simp add: cellAt_def)
  have o: "thingObj (addToSpatialGrid (GThing (nextRef (world m))) ?w)
      = (thingObj (world m)) (nextRef (world m) := ?obj)"
    by (simp add: addToSpatialGrid_def split: option.splits)
  have n: "nextRef (addToSpatialGrid (GThing (nextRef (world m))) ?w) = Suc (nextRef (world m))"
    by (simp add: addToSpatialGrid_def split: option.splits)
  show "addThing x y z0 ty clone m = (Inr (nextRef (world m)), m1)"
    by (simp add: m1_def addThing_fresh_any [OF f])
  show "things (world m1) = things (world m) @ [nextRef (world m)]"
    by (simp add: m1_def addThing_fresh_any [OF f])
  show "nextRef (world m1) = Suc (nextRef (world m))"
    by (simp add: m1_def addThing_fresh_any [OF f] n)
  show "stack (history m1) =
        (if History_replace (history m) None None then butlast (stack (history m))
         else stack (history m)) @
        [\<lparr>doFunc = addThing_do (nextRef (world m)), undoFunc = addThing_undo (nextRef (world m)),
          target = None, parameter = None, coalescing = True\<rparr>]"
    by (simp add: m1_def addThing_fresh_any [OF f])
  show "thingObj (world m1) = (thingObj (world m)) (nextRef (world m) := ?obj)"
    by (simp add: m1_def addThing_fresh_any [OF f] o)
  show "cellAt (world m1) cx cy =
        (if cx = Math_floor (x / SPATIAL_GRID_CELL_SIZE) \<and>
            cy = Math_floor (y / SPATIAL_GRID_CELL_SIZE)
         then set_add (GThing (nextRef (world m))) (cellAt (world m) cx cy)
         else cellAt (world m) cx cy)"
    by (simp add: m1_def addThing_fresh_any [OF f] cellAt_add_point [OF b] c)
qed

text \<open>
  Claim C10 (amended).  Two \<open>addThing\<close> calls in a row, each with or without a thing to
  clone, on a map whose things and grid hold only objects created before.  Both recorded
  actions have no target, no parameter and the coalescing flag, so the second replaces the
  first on the undo stack: the second call leaves \<open>undoCount\<close> as the first call left it.
  Across the two calls \<open>undoCount\<close> grows by one when the first call pushed its entry,
  and by nothing when the first call itself replaced an entry without target and parameter
  that was on top of the stack, such as the entry of an earlier \<open>addThing\<close>.  The new
  things have the given position and the attributes given or cloned, and each is put in the
  grid cell of its position.  One \<open>undo\<close> then removes the second thing only, from the
  things and from the grid: the first thing stays in the map and in its cell, every cell is as
  the first call left it, and the undo stack that remains is the one below the first call's
  entry.
\<close>

theorem addThing_twice_coalesces:
  assumes fresh: "\<forall>t\<in>set (things (world m)). t < nextRef (world m)"
      and gridFresh: "\<forall>cx cy. \<forall>g\<in>set (cellAt (world m) cx cy).
                         \<forall>r. g = GThing r \<longrightarrow> r < nextRef (world m)"
  shows "(let (r1, m1) = addThing x1 y1 z1 ty1 clone1 m;
              (r2, m2) = addThing x2 y2 z2 ty2 clone2 m1;
              (r3, m3) = history_undo m2;
              t1 = nextRef (world m); t2 = Suc (nextRef (world m))
          in r1 = Inr t1 \<and> r2 = Inr t2 \<and> r3 = Inr ()
           \<and> target (last (stack (history m1))) = None
           \<and> parameter (last (stack (history m1))) = None
           \<and> coalescing (last (stack (history m1)))
           \<and> target (last (stack (history m2))) = None
           \<and> parameter (last (stack (history m2))) = None
           \<and> coalescing (last (stack (history m2)))
           \<and> stack (history m2) = butlast (stack (history m1)) @ [last (stack (history m2))]
           \<and> undoCount (history m1) =
               (if History_replace (history m) None None then undoCount (history m)
                else undoCount (history m) + 1)
           \<and> undoCount (history m2) = undoCount (history m1)
           \<and> things (world m1) = things (world m) @ [t1]
           \<and> things (world m2) = things (world m) @ [t1, t2]
           \<and> thingObj (world m1) = (thingObj (world m))
               (t1 := case clone1 of
                  None \<Rightarrow> \<lparr>t_bounds = pointBounds x1 y1, t_x = x1, t_y = y1, z = z1,
                            typeId = ty1, angle = 0\<rparr>
                | Some c \<Rightarrow> \<lparr>t_bounds = pointBounds x1 y1, t_x = x1, t_y = y1,
                              z = z (thingObj (world m) c),
                              typeId = typeId (thingObj (world m) c),
                              angle = angle (thingObj (world m) c)\<rparr>)
           \<and> thingObj (world m2) = (thingObj (world m1))
               (t2 := case clone2 of
                  None \<Rightarrow> \<lparr>t_bounds = pointBounds x2 y2, t_x = x2, t_y = y2, z = z2,
                            typeId = ty2, angle = 0\<rparr>
                | Some c \<Rightarrow> \<lparr>t_bounds = pointBounds x2 y2, t_x = x2, t_y = y2,
                              z = z (thingObj (world m1) c),
                              typeId = typeId (thingObj (world m1) c),
                              angle = angle (thingObj (world m1) c)\<rparr>)
           \<and> (\<forall>cx cy. cellAt (world m1) cx cy =
                  (if cx = Math_floor (x1 / SPATIAL_GRID_CELL_SIZE) \<and>
                      cy = Math_floor (y1 / SPATIAL_GRID_CELL_SIZE)
                   then cellAt (world m) cx cy @ [GThing t1] else cellAt (world m) cx cy))
           \<and> (\<forall>cx cy. cellAt (world m2) cx cy =
                  (if cx = Math_floor (x2 / SPATIAL_GRID_CELL_SIZE) \<and>
                      cy = Math_floor (y2 / SPATIAL_GRID_CELL_SIZE)
                   then cellAt (world m1) cx cy @ [GThing t2] else cellAt (world m1) cx cy))
           \<and> things (world m3) = things (world m) @ [t1]
           \<and> (\<forall>cx cy. cellAt (world m3) cx cy = cellAt (world m1) cx cy)
           \<and> stack (history m3) = butlast (stack (history m1)))"
proof -
  define t1 where "t1 = nextRef (world m)"
  define m1 where "m1 = snd (addThing x1 y1 z1 ty1 clone1 m)"
  note s1 = addThing_step [OF fresh, of x1 y1 z1 ty1 clone1, folded m1_def t1_def]
  note m1 = s1(1) and th1 = s1(2) and nr1 = s1(3) and st1 = s1(4) and ob1 = s1(5)
    and ce1 = s1(6)
  have f2: "\<forall>t\<in>set (things (world m1)). t < nextRef (world m1)"
    using fresh th1 nr1 t1_def by auto
  have rep: "History_replace (history m1) None None"
    by (simp add: History_replace_def st1)
  define m2 where "m2 = snd (addThing x2 y2 z2 ty2 clone2 m1)"
  note s2 = addThing_step [OF f2, of x2 y2 z2 ty2 clone2, folded m2_def, unfolded nr1]
  note m2 = s2(1) and th2' = s2(2) and st2' = s2(4) and ob2 = s2(5) and ce2 = s2(6)
  have th2: "things (world m2) = things (world m) @ [t1, Suc t1]"
    by (simp add: th2' th1)
  have st2: "stack (history m2) = butlast (stack (history m1)) @
        [\<lparr>doFunc = addThing_do (Suc t1), undoFunc = addThing_undo (Suc t1), target = None,
          parameter = None, coalescing = True\<rparr>]"
    by (simp add: st2' rep)
  have n1: "GThing t1 \<notin> set (cellAt (world m) cx cy)" for cx cy
    using gridFresh t1_def by fastforce
  have n2m: "GThing (Suc t1) \<notin> set (cellAt (world m) cx cy)" for cx cy
    using gridFresh t1_def by fastforce
  have c1: "cellAt (world m1) cx cy =
        (if cx = Math_floor (x1 / SPATIAL_GRID_CELL_SIZE) \<and>
            cy = Math_floor (y1 / SPATIAL_GRID_CELL_SIZE)
         then cellAt (world m) cx cy @ [GThing t1] else cellAt (world m) cx cy)" for cx cy
    by (simp add: ce1 set_add_def n1)
  have n2: "GThing (Suc t1) \<notin> set (cellAt (world m1) cx cy)" for cx cy
    by (simp add: c1 n2m)
  have c2: "cellAt (world m2) cx cy =
        (if cx = Math_floor (x2 / SPATIAL_GRID_CELL_SIZE) \<and>
            cy = Math_floor (y2 / SPATIAL_GRID_CELL_SIZE)
         then cellAt (world m1) cx cy @ [GThing (Suc t1)] else cellAt (world m1) cx cy)" for cx cy
    by (simp add: ce2 set_add_def n2)
  have ix: "indexOf (Suc t1) (things (world m2)) = Some (Suc (length (things (world m))))"
  proof -
    have "Suc t1 \<notin> set (things (world m) @ [t1])"
      using fresh t1_def by auto
    from indexOf_append_fresh [OF this] show ?thesis
      by (simp add: th2)
  qed
  have b2: "boundsOf (world m2) (GThing (Suc t1)) = Some (pointBounds x2 y2)"
    by (cases clone2) (simp_all add: boundsOf_def ob2)
  define w3 where "w3 = (removeFromSpatialGrid (GThing (Suc t1)) (world m2))
      \<lparr>things := splice1 (Some (Suc (length (things (world m)))))
                   (things (removeFromSpatialGrid (GThing (Suc t1)) (world m2)))\<rparr>"
  have u: "addThing_undo (Suc t1) (world m2) = (Inr (), w3)"
    by (simp add: addThing_undo_def ix Let_def w3_def)
  have c3: "cellAt w3 cx cy = cellAt (world m1) cx cy" for cx cy
  proof -
    have "cellAt w3 cx cy = cellAt (removeFromSpatialGrid (GThing (Suc t1)) (world m2)) cx cy"
      by (simp add: w3_def cellAt_def)
    also have "\<dots> = cellAt (world m1) cx cy"
      by (simp add: cellAt_remove_point [OF b2] c2 set_delete_def n2)
    finally show ?thesis .
  qed
  have th3w: "things w3 = things (world m) @ [t1]"
    by (simp add: w3_def th2 splice1_def)
  define m3 where "m3 = snd (history_undo m2)"
  have m3: "history_undo m2 = (Inr (), m3)"
    and w3: "world m3 = w3"
    and st3: "stack (history m3) = butlast (stack (history m1))"
    using u by (simp_all add: m3_def history_undo_def History_undo_def Let_def st2)
  show ?thesis
    using th1 th2 th3w st1 st2 st3 c1 c2 c3
    by (simp add: Let_def m1 m2 m3 w3 t1_def [symmetric] undoCount_def History_replace_def
        ob1 ob2)
qed


text \<open>
  On the empty map: a thing at \<open>(10, 20)\<close>, and a clone of it at \<open>(300, 40)\<close>.
\<close>

theorem addThing_twice_coalesces_witness:
  "(let (r1, m1) = addThing 10 20 5 3 None DoomMap_new;
        (r2, m2) = addThing 300 40 0 1 (Some 0) m1;
        (r3, m3) = history_undo m2
    in r1 = Inr 0 \<and> r2 = Inr 1 \<and> r3 = Inr () \<and> undoCount (history m1) = 1
     \<and> undoCount (history m2) = 1 \<and> things (world m2) = [0, 1]
     \<and> z (thingObj (world m2) 1) = 5 \<and> typeId (thingObj (world m2) 1) = 3
     \<and> t_x (thingObj (world m2) 1) = 300
     \<and> cellAt (world m2) 0 0 = [GThing 0] \<and> cellAt (world m2) 2 0 = [GThing 1]
     \<and> things (world m3) = [0] \<and> cellAt (world m3) 0 0 = [GThing 0]
     \<and> cellAt (world m3) 2 0 = [] \<and> undoCount (history m3) = 0)"
proof -
  have h: "\<forall>t\<in>set (things (world DoomMap_new)). t < nextRef (world DoomMap_new)"
    by (simp add: DoomMap_new_def World_new_def)
  have g: "\<forall>cx cy. \<forall>g\<in>set (cellAt (world DoomMap_new) cx cy).
             \<forall>r. g = GThing r \<longrightarrow> r < nextRef (world DoomMap_new)"
    by (simp add: DoomMap_new_def World_new_def cellAt_def)
  have s0: "stack (history DoomMap_new) = []" "things (world DoomMap_new) = []"
    "nextRef (world DoomMap_new) = 0" "\<not> History_replace (history DoomMap_new) None None"
    "\<And>cx cy. cellAt (world DoomMap_new) cx cy = []"
    by (simp_all add: DoomMap_new_def World_new_def History_new_def History_replace_def
        cellAt_def)
  show ?thesis
    using addThing_twice_coalesces [OF h g, of 10 20 5 3 None 300 40 0 1 "Some 0"]
    by (simp add: Let_def s0 undoCount_def butlast_singleton Math_floor_def
        SPATIAL_GRID_CELL_SIZE_def pointBounds_def split: prod.splits)
qed

text \<open>
  Three \<open>addThing\<close> calls on the empty map.  The second and the third are two calls in a
  row, with \<open>undoCount\<close> one before them and one after them: across these two calls it
  does not grow.
\<close>

theorem addThing_thrice_counterexample:
  "undoCount (history things1) = 1 \<and> undoCount (history things2) = 1 \<and>
   undoCount (history things3) = 1 \<and> things (world things3) = [0, 1, 2]"
  by (simp add: things1_def things2_def things3_def addThing_def priv_addThing_def
      Thing_new_def addThing_do_def undoCount_def DoomMap_new_def World_new_def
      core_defs history_defs grid_defs)

section \<open>Coalescing of property edits\<close>

lemma setSectorProperty_lightLevel:
  "setSectorProperty s ''lightLevel'' (JNumber v) m =
     (if lightLevel (properties (sectorObj (world m) s)) = v then (Inr (), m)
      else history_do (assignSectorProperty s ''lightLevel'' (JNumber v))
             (assignSectorProperty s ''lightLevel''
                (JNumber (lightLevel (properties (sectorObj (world m) s)))))
             (Some (TSector s)) (Some ''lightLevel'') True m)"
  by (simp add: setSectorProperty_def Properties_get_def validProperty_def)

lemma assign_lightLevel:
  "assignSectorProperty s ''lightLevel'' (JNumber v) w =
     (Inr (), updSector s (\<lambda>sc. sc\<lparr>properties := (properties sc)\<lparr>lightLevel := v\<rparr>\<rparr>) w)"
  by (simp add: assignSectorProperty_def modify_def Properties_set_def)

lemma lightLevel_updSector [simp]:
  "lightLevel (properties (sectorObj
      (updSector s (\<lambda>sc. sc\<lparr>properties := (properties sc)\<lparr>lightLevel := v\<rparr>\<rparr>) w) s)) = v"
  by (simp add: updSector_def)

lemma lightLevel_three_sets:
  assumes empty: "stack (history m) = []"
  shows "\<exists>m1 m2 m3 m4.
           setSectorProperty s ''lightLevel'' (JNumber 160) m = (Inr (), m1)
         \<and> setSectorProperty s ''lightLevel'' (JNumber 164) m1 = (Inr (), m2)
         \<and> setSectorProperty s ''lightLevel'' (JNumber 168) m2 = (Inr (), m3)
         \<and> history_undo m3 = (Inr (), m4)
         \<and> lightLevel (properties (sectorObj (world m3) s)) = 168
         \<and> undoCount (history m3) = 1
         \<and> lightLevel (properties (sectorObj (world m4) s)) = 164"
proof -
  obtain m1 where m1: "setSectorProperty s ''lightLevel'' (JNumber 160) m = (Inr (), m1)"
    and l1: "lightLevel (properties (sectorObj (world m1) s)) = 160"
    and st1: "stack (history m1) = [] \<or>
        (\<exists>a. stack (history m1) = [a] \<and> coalescing a \<and> target a = Some (TSector s)
              \<and> parameter a = Some ''lightLevel'')"
    using empty
    by (cases "lightLevel (properties (sectorObj (world m) s)) = 160")
       (auto simp: setSectorProperty_lightLevel history_do_unfold assign_lightLevel
          History_replace_def)
  obtain m2 where m2: "setSectorProperty s ''lightLevel'' (JNumber 164) m1 = (Inr (), m2)"
    and l2: "lightLevel (properties (sectorObj (world m2) s)) = 164"
    and st2: "\<exists>a. stack (history m2) = [a] \<and> coalescing a \<and> target a = Some (TSector s)
              \<and> parameter a = Some ''lightLevel''"
    using st1 l1
    by (auto simp: setSectorProperty_lightLevel history_do_unfold assign_lightLevel
          History_replace_def)
  obtain m3 where m3: "setSectorProperty s ''lightLevel'' (JNumber 168) m2 = (Inr (), m3)"
    and l3: "lightLevel (properties (sectorObj (world m3) s)) = 168"
    and st3: "stack (history m3) =
        [\<lparr>doFunc = assignSectorProperty s ''lightLevel'' (JNumber 168),
          undoFunc = assignSectorProperty s ''lightLevel'' (JNumber 164),
          target = Some (TSector s), parameter = Some ''lightLevel'', coalescing = True\<rparr>]"
    using st2 l2
    by (auto simp: setSectorProperty_lightLevel history_do_unfold assign_lightLevel
          History_replace_def)
  obtain m4 where m4: "history_undo m3 = (Inr (), m4)"
    and l4: "lightLevel (properties (sectorObj (world m4) s)) = 164"
    using st3
    by (auto simp: history_undo_def History_undo_def Let_def assign_lightLevel)
  show ?thesis
    using m1 m2 m3 m4 l3 l4 st3 by (auto simp: undoCount_def)
qed

text \<open>
  C4, as the code has it.  On a map with an empty undo stack, setting \<open>lightLevel\<close> of a
  sector to 160, then 164, then 168 succeeds three times and leaves one entry on the undo
  stack; one \<open>undo\<close> then sets \<open>lightLevel\<close> to 164, the value before the last of the
  three calls: the entry that stays on the stack is the one of the last call, whose undo
  closure holds the value read at that call.
\<close>

theorem setSectorProperty_coalesces:
  assumes "stack (history m) = []"
  shows "(let m1 = exec (setSectorProperty s ''lightLevel'' (JNumber 160)) m;
              m2 = exec (setSectorProperty s ''lightLevel'' (JNumber 164)) m1;
              m3 = exec (setSectorProperty s ''lightLevel'' (JNumber 168)) m2;
              m4 = exec history_undo m3
          in outcome (setSectorProperty s ''lightLevel'' (JNumber 160)) m = Inr ()
           \<and> outcome (setSectorProperty s ''lightLevel'' (JNumber 164)) m1 = Inr ()
           \<and> outcome (setSectorProperty s ''lightLevel'' (JNumber 168)) m2 = Inr ()
           \<and> outcome history_undo m3 = Inr ()
           \<and> lightLevel (properties (sectorObj (world m3) s)) = 168
           \<and> undoCount (history m3) = 1
           \<and> lightLevel (properties (sectorObj (world m4) s)) = 164)"
  using lightLevel_three_sets [OF assms, of s]
  by (auto simp: exec_def outcome_def Let_def)

text \<open>
  A map with an empty history and one sector made by \<open>new Sector(lineMap, [])\<close>, whose
  \<open>lightLevel\<close> is the default 160.
\<close>

lemma one_sector_map:
  "stack (history (DoomMap_new\<lparr>world := exec (Sector_new [] []) World_new\<rparr>)) = []"
  "outcome (Sector_new [] []) World_new = Inr 0"
  "lightLevel (properties (sectorObj
      (world (DoomMap_new\<lparr>world := exec (Sector_new [] []) World_new\<rparr>)) 0)) = 160"
  by (simp_all add: DoomMap_new_def History_new_def exec_def outcome_def Sector_new_def
        World_new_def bind_def ret_def Properties_new_def Let_def)

theorem setSectorProperty_coalesces_witness:
  "undoCount (history
     (exec (setSectorProperty 0 ''lightLevel'' (JNumber 168))
        (exec (setSectorProperty 0 ''lightLevel'' (JNumber 164))
           (exec (setSectorProperty 0 ''lightLevel'' (JNumber 160))
              (DoomMap_new\<lparr>world := exec (Sector_new [] []) World_new\<rparr>))))) = 1
   \<and> lightLevel (properties (sectorObj (world
       (exec history_undo
          (exec (setSectorProperty 0 ''lightLevel'' (JNumber 168))
             (exec (setSectorProperty 0 ''lightLevel'' (JNumber 164))
                (exec (setSectorProperty 0 ''lightLevel'' (JNumber 160))
                   (DoomMap_new\<lparr>world := exec (Sector_new [] []) World_new\<rparr>)))))) 0)) = 164"
  using setSectorProperty_coalesces [OF one_sector_map(1), of 0]
  by (simp add: Let_def)

text \<open>
  The claim as the specification words it fails on this map: the value before the first
  call is 160, and the value after the three calls and one \<open>undo\<close> is 164.
\<close>

theorem setSectorProperty_undo_counterexample:
  "lightLevel (properties (sectorObj
      (world (DoomMap_new\<lparr>world := exec (Sector_new [] []) World_new\<rparr>)) 0)) = 160
   \<and> lightLevel (properties (sectorObj (world
       (exec history_undo
          (exec (setSectorProperty 0 ''lightLevel'' (JNumber 168))
             (exec (setSectorProperty 0 ''lightLevel'' (JNumber 164))
                (exec (setSectorProperty 0 ''lightLevel'' (JNumber 160))
                   (DoomMap_new\<lparr>world := exec (Sector_new [] []) World_new\<rparr>)))))) 0)) = 164"
  using lightLevel_three_sets [OF one_sector_map(1), of 0] one_sector_map(3)
  by (auto simp: exec_def)

section \<open>The box of the first scenario\<close>

text \<open>
  Claim C3.  From the empty map, \<open>addLine(0,0,100,0)\<close>, \<open>addLine(100,0,100,100)\<close>,
  \<open>addLine(100,100,0,100)\<close> and \<open>addLine(0,100,0,0)\<close> each throw a TypeError: the two
  end points are added, and the first bounded \<open>iterateLines\<close> hands an end point, a
  vertex, to a callback that reads \<open>line.v0.x\<close>.  After the four calls the map has the
  four vertices, no line and no sector.
\<close>

theorem box_scenario_throws:
  "outcome (addLine 0 0 100 0 False) DoomMap_new = Inl TypeError \<and>
   outcome (addLine 100 0 100 100 False) box1 = Inl TypeError \<and>
   outcome (addLine 100 100 0 100 False) box2 = Inl TypeError \<and>
   outcome (addLine 0 100 0 0 False) box3 = Inl TypeError \<and>
   vertices (world box4) = [0, 1, 2, 3] \<and> lines (world box4) = [] \<and>
   sectors (world box4) = []"
  by (simp add: box1_def box2_def box3_def box4_def DoomMap_new_def World_new_def
      core_defs history_defs grid_defs vertex_defs iterate_defs addLine_defs)

section \<open>The spatial grid under undo and redo\<close>

text \<open>
  Claim C9.  \<open>addVertex(0,0)\<close>, \<open>addVertex(1,0)\<close>, \<open>addVertex(2,0)\<close>,
  \<open>removeVertex(1,0)\<close>, three times \<open>undo()\<close>, \<open>removeVertex(0,0)\<close> and three times
  \<open>redo()\<close> all return normally.  The second \<open>removeVertex\<close> coalesces with the entry
  of \<open>addVertex(0,0)\<close> and leaves the redo stack; the last \<open>redo\<close> runs the closure of
  \<open>removeVertex(1,0)\<close> with the index found at its call, takes vertex \<open>(1,0)\<close> out of the
  grid and the vertex map, and splices vertex \<open>(2,0)\<close> out of the vertex array.  In the end
  vertex \<open>(1,0)\<close> is the one vertex of the map and no grid cell contains it.
\<close>

theorem grid_misses_vertex_after_redo:
  "outcome (addVertex 0 0 False) DoomMap_new = Inr 0 \<and>
   outcome (addVertex 1 0 False) row1 = Inr 1 \<and>
   outcome (addVertex 2 0 False) row2 = Inr 2 \<and>
   outcome (removeVertex 1 0 False) row3 = Inr True \<and>
   outcome history_undo row4 = Inr () \<and>
   outcome history_undo row5 = Inr () \<and>
   outcome history_undo row6 = Inr () \<and>
   outcome (removeVertex 0 0 False) row7 = Inr True \<and>
   outcome history_redo row8 = Inr () \<and>
   outcome history_redo row9 = Inr () \<and>
   outcome history_redo row10 = Inr () \<and>
   vertices (world row11) = [1] \<and>
   v_x (vertexObj (world row11) 1) = 1 \<and> v_y (vertexObj (world row11) 1) = 0 \<and>
   spatialGrid (world row11) = [(0, [(0, [GVertex 2])])] \<and>
   vertexMap (world row11) = [(VertexKey 2 0, 2)]"
  by (simp add: row1_def row2_def row3_def row4_def row5_def row6_def row7_def row8_def
      row9_def row10_def row11_def DoomMap_new_def World_new_def rebuildSectors_def
      core_defs history_defs grid_defs vertex_defs iterate_defs)

section \<open>Serialization round trip\<close>

text \<open>
  Claim C7.  The map of the box serializes to four vertices, four lines and one sector with
  four line descriptors.  \<open>deserialize\<close> of that data on a new map throws a TypeError:
  the vertices and lines are registered, the sector is constructed, and \<open>addToMap\<close>
  iterates the grid cells of the sector's bounds, where the second callback reads the
  private field \<open>#parent\<close> of a vertex.
\<close>

theorem deserialize_box_throws:
  "md_vertices (serialize boxMap) =
     [\<lparr>vd_x = 0, vd_y = 0\<rparr>, \<lparr>vd_x = 100, vd_y = 0\<rparr>, \<lparr>vd_x = 100, vd_y = 100\<rparr>,
      \<lparr>vd_x = 0, vd_y = 100\<rparr>] \<and>
   map sc_lines (md_sectors (serialize boxMap)) =
     [[\<lparr>d_x0 = 0, d_y0 = 0, d_x1 = 100, d_y1 = 0, d_front = True\<rparr>,
       \<lparr>d_x0 = 100, d_y0 = 0, d_x1 = 100, d_y1 = 100, d_front = True\<rparr>,
       \<lparr>d_x0 = 100, d_y0 = 100, d_x1 = 0, d_y1 = 100, d_front = True\<rparr>,
       \<lparr>d_x0 = 0, d_y0 = 100, d_x1 = 0, d_y1 = 0, d_front = True\<rparr>]] \<and>
   outcome (deserialize (serialize boxMap)) DoomMap_new = Inl TypeError \<and>
   sectors (world (exec (deserialize (serialize boxMap)) DoomMap_new)) = []"
  by (simp add: boxMap_def boxWorld_def boxVertex_def boxLine_def DoomMap_new_def World_new_def
      serialize_defs deserialize_defs
      core_defs history_defs grid_defs vertex_defs iterate_defs line_defs sector_defs)

section \<open>wouldSegmentCrossAny\<close>


text \<open>
  Claim C8.  The map holds the one line from \<open>(0, 0)\<close> to \<open>(200, 200)\<close>.  The candidate
  segment from \<open>(0, 200)\<close> to \<open>(200, 0)\<close> properly intersects that line and has no end
  point in common with it, and the ignore set is \<open>null\<close>; the bounds are those of the
  candidate.  The call does not return the line: the bounded iteration hands over the
  vertex \<open>(0, 0)\<close>, the first object of the first cell, and the callback throws a
  TypeError reading \<open>line.v0.x\<close>.  A candidate that meets no line, from \<open>(0, 200)\<close> to
  \<open>(50, 150)\<close> with the same bounds (it does not intersect the line and is not collinear
  with its end point \<open>(0, 0)\<close>), does not get \<open>null\<close> but the same error.
\<close>

theorem wouldSegmentCrossAny_throws_on_crossing:
  "lines (world crossMap) = [2] \<and>
   v_x (vertexObj (world crossMap) (l_v0 (lineObj (world crossMap) 2))) = 0 \<and>
   v_y (vertexObj (world crossMap) (l_v0 (lineObj (world crossMap) 2))) = 0 \<and>
   v_x (vertexObj (world crossMap) (l_v1 (lineObj (world crossMap) 2))) = 200 \<and>
   v_y (vertexObj (world crossMap) (l_v1 (lineObj (world crossMap) 2))) = 200 \<and>
   segmentsProperlyIntersect 0 200 200 0 0 0 200 200 \<and>
   wouldSegmentCrossAny (world crossMap) 0 200 200 0 (0, 0) (200, 200) None = Inl TypeError \<and>
   \<not> segmentsProperlyIntersect 0 200 50 150 0 0 200 200 \<and>
   orientation 0 200 50 150 0 0 \<noteq> 0 \<and>
   wouldSegmentCrossAny (world crossMap) 0 200 50 150 (0, 0) (200, 200) None = Inl TypeError"
  by (simp add: crossMap_def cross0_def cross1_def registerLineBetween_def
      DoomMap_new_def World_new_def cross_defs
      core_defs history_defs grid_defs vertex_defs iterate_defs line_defs)

section \<open>addLine with nothing to add\<close>




lemma Math_round_idem [simp]: "Math_round (Math_round x) = Math_round x"
  by (simp add: Math_round_def)








section \<open>Undoing a sequence of edits\<close>

lemma restored_refl [simp]: "restored w w"
  by (simp add: restored_def)







lemma cellAt_upd [simp]:
  "cellAt (updSector sc f w) cx cy = cellAt w cx cy"
  "cellAt (updLine l h w) cx cy = cellAt w cx cy"
  "cellAt (w\<lparr>metadata := md\<rparr>) cx cy = cellAt w cx cy"
  by (simp_all add: cellAt_def updSector_def updLine_def)

























section \<open>The scratch references after a rebuild\<close>








lemma oldRefs_upd [simp]:
  "oldRefs (updSector r f w) = oldRefs w"
  "oldRefs (setFrontSector l v w) = oldRefs w"
  "oldRefs (setBackSector l v w) = oldRefs w"
  "oldRefs (addToSpatialGrid g w) = oldRefs w"
  "oldRefs (removeFromSpatialGrid g w) = oldRefs w"
  "oldRefs (w\<lparr>sectors := ss\<rparr>) = oldRefs w"
  "oldRefs (w\<lparr>sectorObj := so, nextRef := n\<rparr>) = oldRefs w"
  by (auto simp add: oldRefs_def updSector_def setFrontSector_def setBackSector_def
      updLine_def fun_eq_iff)













lemma keepsOld_throw [simp]: "keepsOld (throw e)"
  by (simp add: keepsOld_def throw_def)




lemma set_add_not_Nil [simp]: "set_add x xs \<noteq> []"
  by (auto simp add: set_add_def)














end
